theory Spec2Isabelle
  imports Complex_Main "HOL-Library.AList"
begin

section \<open>Timestamps\<close>

text \<open>
  The trackers of \<^verbatim>\<open>Deteksi_Material.py\<close> work on naive \<^verbatim>\<open>datetime\<close> values.
  A \<^verbatim>\<open>datetime\<close> is modelled by the fields the program reads: the calendar date as
  its proleptic Gregorian ordinal (\<^verbatim>\<open>date.toordinal()\<close>, with \<^verbatim>\<open>date.min\<close> at 1), and
  the time of day. Durations are \<^verbatim>\<open>timedelta.total_seconds()\<close>, a number of seconds;
  they are kept exact as rationals (the binary rounding of Python's float is outside
  the model). Log output is not modelled.
\<close>

record datetime =
  date_ordinal :: int
  hour :: int
  minute :: int
  second :: int
  microsecond :: int

definition valid_datetime :: "datetime \<Rightarrow> bool" where
  "valid_datetime dt \<longleftrightarrow>
     1 \<le> date_ordinal dt \<and> 0 \<le> hour dt \<and> hour dt < 24 \<and> 0 \<le> minute dt \<and> minute dt < 60
     \<and> 0 \<le> second dt \<and> second dt < 60 \<and> 0 \<le> microsecond dt \<and> microsecond dt < 1000000"

definition to_microseconds :: "datetime \<Rightarrow> int" where
  "to_microseconds dt =
     (((date_ordinal dt * 24 + hour dt) * 60 + minute dt) * 60 + second dt) * 1000000
       + microsecond dt"

text \<open>\<^verbatim>\<open>(a - b).total_seconds()\<close>\<close>

definition total_seconds :: "datetime \<Rightarrow> datetime \<Rightarrow> rat" where
  "total_seconds a b = of_int (to_microseconds a - to_microseconds b) / 1000000"

text \<open>\<^verbatim>\<open>int(x)\<close> on a float truncates towards zero.\<close>

definition py_int :: "rat \<Rightarrow> int" where
  "py_int x = (if 0 \<le> x then \<lfloor>x\<rfloor> else \<lceil>x\<rceil>)"

text \<open>\<^verbatim>\<open>x // m\<close> and \<^verbatim>\<open>x % m\<close> on floats, for a positive divisor.\<close>

definition py_floordiv :: "rat \<Rightarrow> rat \<Rightarrow> rat" where
  "py_floordiv x m = of_int \<lfloor>x / m\<rfloor>"

definition py_mod :: "rat \<Rightarrow> rat \<Rightarrow> rat" where
  "py_mod x m = x - m * of_int \<lfloor>x / m\<rfloor>"

section \<open>DailyTimer\<close>

text \<open>
  \<^verbatim>\<open>class DailyTimer\<close>. Every read of \<^verbatim>\<open>datetime.now()\<close> is an explicit argument
  \<open>now\<close>. A \<^verbatim>\<open>datetime\<close> object is always truthy, so the test
  \<^verbatim>\<open>self.is_active and self.current_session_start\<close> is
  \<open>is_active t \<and> current_session_start t \<noteq> None\<close>.
\<close>

record DailyTimer =
  area_name :: string
  daily_total_seconds :: rat
  last_reset_date :: int
  current_session_start :: "datetime option"
  is_active :: bool

definition check_daily_reset :: "DailyTimer \<Rightarrow> datetime \<Rightarrow> DailyTimer" where
  "check_daily_reset t now =
     (let current_date = date_ordinal now in
      if current_date > last_reset_date t
      then t\<lparr>daily_total_seconds := 0, last_reset_date := current_date\<rparr>
      else t)"

definition start_session :: "DailyTimer \<Rightarrow> datetime \<Rightarrow> datetime \<Rightarrow> DailyTimer" where
  "start_session t start_time now =
     (if \<not> is_active t
      then check_daily_reset (t\<lparr>current_session_start := Some start_time, is_active := True\<rparr>) now
      else t)"

text \<open>\<^verbatim>\<open>end_session\<close> returns the session duration and the updated timer.\<close>

definition end_session :: "DailyTimer \<Rightarrow> datetime \<Rightarrow> rat \<times> DailyTimer" where
  "end_session t end_time =
     (case current_session_start t of
        Some s \<Rightarrow>
          if is_active t
          then (let session_duration = total_seconds end_time s in
                (session_duration,
                 t\<lparr>daily_total_seconds := daily_total_seconds t + session_duration,
                   is_active := False,
                   current_session_start := None\<rparr>))
          else (0, t)
      | None \<Rightarrow> (0, t))"

definition get_current_session_duration :: "DailyTimer \<Rightarrow> datetime \<Rightarrow> rat" where
  "get_current_session_duration t now =
     (case current_session_start t of
        Some s \<Rightarrow> if is_active t then total_seconds now s else 0
      | None \<Rightarrow> 0)"

definition get_daily_total :: "DailyTimer \<Rightarrow> datetime \<Rightarrow> rat" where
  "get_daily_total t now =
     (let total = daily_total_seconds t in
      if is_active t then total + get_current_session_duration t now else total)"

definition force_daily_reset :: "DailyTimer \<Rightarrow> datetime \<Rightarrow> DailyTimer" where
  "force_daily_reset t now = t\<lparr>daily_total_seconds := 0, last_reset_date := date_ordinal now\<rparr>"

text \<open>A session is open when the timer is flagged active and has a start time.\<close>

definition session_open :: "DailyTimer \<Rightarrow> bool" where
  "session_open t \<longleftrightarrow> is_active t \<and> current_session_start t \<noteq> None"

section \<open>Formatting\<close>

text \<open>Decimal digits of a natural number, and the format specifier \<^verbatim>\<open>:02d\<close>
  (zero-padded to width two; a minus sign counts towards the width).\<close>

definition digit_char :: "nat \<Rightarrow> char" where
  "digit_char n = ''0123456789'' ! n"

fun str_nat :: "nat \<Rightarrow> string" where
  "str_nat n = (if n < 10 then [digit_char n] else str_nat (n div 10) @ [digit_char (n mod 10)])"

declare str_nat.simps [simp del]

definition fmt02d :: "int \<Rightarrow> string" where
  "fmt02d i =
     (if i < 0 then CHR ''-'' # str_nat (nat (- i))
      else (let s = str_nat (nat i) in if length s < 2 then CHR ''0'' # s else s))"

text \<open>\<^verbatim>\<open>DailyTimer.format_duration\<close>; the exit handlers of the three trackers repeat the
  same expression inline to build \<^verbatim>\<open>time_format\<close>.\<close>

definition format_duration :: "rat \<Rightarrow> string" where
  "format_duration seconds =
     (let hours = py_int (py_floordiv seconds 3600);
          minutes = py_int (py_floordiv (py_mod seconds 3600) 60);
          secs = py_int (py_mod seconds 60)
      in fmt02d hours @ '':'' @ fmt02d minutes @ '':'' @ fmt02d secs)"

text \<open>\<^verbatim>\<open>strftime("%H:%M:%S")\<close>, for a time of day within range.\<close>

definition strftime_HMS :: "datetime \<Rightarrow> string" where
  "strftime_HMS dt = fmt02d (hour dt) @ '':'' @ fmt02d (minute dt) @ '':'' @ fmt02d (second dt)"

text \<open>\<^verbatim>\<open>strftime('%Y-%m-%d %H:%M:%S')\<close> renders the date and the time of day to whole
  seconds; the model keeps the rendered fields, that is the timestamp without its
  microseconds.\<close>

definition strftime_seconds :: "datetime \<Rightarrow> datetime" where
  "strftime_seconds dt = dt\<lparr>microsecond := 0\<rparr>"

section \<open>Shift and log date\<close>

text \<open>
  \<^verbatim>\<open>get_current_shift\<close> and \<^verbatim>\<open>get_log_date_for_shift\<close> are defined three times in the
  source (in \<^verbatim>\<open>IndependentAreaTracker\<close>, \<^verbatim>\<open>FreetimeTracker\<close> and \<^verbatim>\<open>GloveTracker\<close>) with
  identical bodies. \<^verbatim>\<open>date - timedelta(days=1)\<close> raises \<^verbatim>\<open>OverflowError\<close> below
  \<^verbatim>\<open>date.min\<close>.
\<close>

datatype py_error = OverflowError | KeyError | QueueFull | QueueEmpty

definition get_current_shift :: "datetime \<Rightarrow> string" where
  "get_current_shift dt =
     (if (hour dt = 7 \<and> minute dt \<ge> 10) \<or> (7 < hour dt \<and> hour dt < 16) then ''Shift_1''
      else if (16 \<le> hour dt \<and> hour dt < 24) \<or> (hour dt = 0 \<and> minute dt \<le> 15) then ''Shift_2''
      else ''Shift_3'')"

definition date_minus_one_day :: "int \<Rightarrow> py_error + int" where
  "date_minus_one_day d = (if d - 1 < 1 then Inl OverflowError else Inr (d - 1))"

definition get_log_date_for_shift :: "datetime \<Rightarrow> py_error + int" where
  "get_log_date_for_shift dt =
     (let shift = get_current_shift dt in
      if shift = ''Shift_3'' then date_minus_one_day (date_ordinal dt)
      else if shift = ''Shift_2'' \<and> hour dt = 0 \<and> minute dt \<le> 15
      then date_minus_one_day (date_ordinal dt)
      else Inr (date_ordinal dt))"

text \<open>The time of day in whole seconds, and the ranges as the specification words them.\<close>

definition hms :: "int \<Rightarrow> int \<Rightarrow> int \<Rightarrow> int" where
  "hms h m s = (h * 60 + m) * 60 + s"

definition time_of_day :: "datetime \<Rightarrow> int" where
  "time_of_day dt = hms (hour dt) (minute dt) (second dt)"

definition spec_shift_1_range :: "datetime \<Rightarrow> bool" where
  "spec_shift_1_range dt \<longleftrightarrow> hms 7 10 0 \<le> time_of_day dt \<and> time_of_day dt \<le> hms 15 59 59"

definition spec_shift_2_range :: "datetime \<Rightarrow> bool" where
  "spec_shift_2_range dt \<longleftrightarrow>
     (hms 16 0 0 \<le> time_of_day dt \<and> time_of_day dt \<le> hms 23 59 59)
     \<or> (hms 0 0 0 \<le> time_of_day dt \<and> time_of_day dt \<le> hms 0 15 0)"

definition spec_shift_3_range :: "datetime \<Rightarrow> bool" where
  "spec_shift_3_range dt \<longleftrightarrow> hms 0 16 0 \<le> time_of_day dt \<and> time_of_day dt \<le> hms 7 9 59"

definition spec_log_date :: "datetime \<Rightarrow> int" where
  "spec_log_date dt =
     (if get_current_shift dt = ''Shift_3''
         \<or> (get_current_shift dt = ''Shift_2'' \<and> time_of_day dt \<le> hms 0 15 0)
      then date_ordinal dt - 1 else date_ordinal dt)"

section \<open>Persistence\<close>

text \<open>
  One row of table \<^verbatim>\<open>iot_lacquerings\<close>, with the columns of the \<^verbatim>\<open>INSERT\<close>. The database is
  the list of rows inserted so far. \<open>connected\<close> says whether
  \<^verbatim>\<open>mysql.connector.connect\<close>, \<^verbatim>\<open>is_connected\<close>, \<^verbatim>\<open>execute\<close> and \<^verbatim>\<open>commit\<close> succeed; when
  they do not, or when computing a column raises, the \<^verbatim>\<open>except\<close> clause logs the error
  and nothing is inserted.
\<close>

record session_row =
  area :: string
  time_format :: string
  time_int :: int
  time_in :: datetime
  shift :: string
  remark :: string
  no_area :: int
  log_date :: int
  created_at :: datetime

record database =
  connected :: bool
  iot_lacquerings :: "session_row list"

text \<open>The body shared by \<^verbatim>\<open>save_area_data\<close>, \<^verbatim>\<open>save_freetime_data\<close> and
  \<^verbatim>\<open>save_glove_data\<close>, which differ in the value of \<^verbatim>\<open>no_area\<close> only.\<close>

definition save_row ::
  "string \<Rightarrow> int \<Rightarrow> string \<Rightarrow> datetime \<Rightarrow> datetime \<Rightarrow> string \<Rightarrow> database \<Rightarrow> database" where
  "save_row name_db number time_fmt t_in t_created rmk db =
     (if \<not> connected db then db
      else
        (let shift_info = get_current_shift t_in;
             time_in_str = strftime_seconds t_in;
             created_at_str = strftime_seconds t_created
         in case get_log_date_for_shift t_in of
              Inl e \<Rightarrow> db
            | Inr ld \<Rightarrow>
                (let session_duration = total_seconds t_created t_in in
                 db\<lparr>iot_lacquerings := iot_lacquerings db @
                      [\<lparr>area = name_db, time_format = time_fmt,
                        time_int = py_int session_duration, time_in = time_in_str,
                        shift = shift_info, remark = rmk, no_area = number,
                        log_date = ld, created_at = created_at_str\<rparr>]\<rparr>)))"

section \<open>IndependentAreaTracker\<close>

record IndependentAreaTracker =
  zone_name :: string
  area_bbox :: "rat \<times> rat \<times> rat \<times> rat"
  zone_name_db :: string
  area_number :: int
  is_material_present :: bool
  material_start_time :: "datetime option"
  last_detection_time :: "datetime option"
  material_entry_time :: "string option"
  zone_timer :: DailyTimer
  material_lost_threshold :: rat

definition is_inside_area :: "IndependentAreaTracker \<Rightarrow> rat \<times> rat \<times> rat \<times> rat \<Rightarrow> bool" where
  "is_inside_area tr obj_bbox =
     (case (area_bbox tr, obj_bbox) of
        ((a0, a1, a2, a3), (b0, b1, b2, b3)) \<Rightarrow>
          (let obj_center_x = (b0 + b2) / 2; obj_center_y = (b1 + b3) / 2
           in a0 \<le> obj_center_x \<and> obj_center_x \<le> a2 \<and> a1 \<le> obj_center_y \<and> obj_center_y \<le> a3))"

definition save_area_data ::
  "IndependentAreaTracker \<Rightarrow> string \<Rightarrow> datetime \<Rightarrow> datetime \<Rightarrow> string \<Rightarrow> database \<Rightarrow> database" where
  "save_area_data tr time_fmt t_in t_created rmk db =
     save_row (zone_name_db tr) (area_number tr) time_fmt t_in t_created rmk db"

definition handle_material_exit ::
  "IndependentAreaTracker \<Rightarrow> datetime \<Rightarrow> database \<Rightarrow> IndependentAreaTracker \<times> database" where
  "handle_material_exit tr exit_time db =
     (case material_start_time tr of
        None \<Rightarrow> (tr, db)
      | Some start \<Rightarrow>
          if \<not> is_material_present tr then (tr, db)
          else
            (let (session_duration, timer') = end_session (zone_timer tr) exit_time;
                 time_fmt = format_duration session_duration;
                 db' = save_area_data tr time_fmt start exit_time ''in_use'' db
             in (tr\<lparr>zone_timer := timer', is_material_present := False,
                    material_start_time := None, material_entry_time := None,
                    last_detection_time := None\<rparr>, db')))"

definition update_detection ::
  "IndependentAreaTracker \<Rightarrow> datetime \<Rightarrow> bool \<Rightarrow> datetime \<Rightarrow> database
     \<Rightarrow> IndependentAreaTracker \<times> database" where
  "update_detection tr current_time material_detected now db =
     (if material_detected then
        (let tr1 = tr\<lparr>last_detection_time := Some current_time\<rparr> in
         if \<not> is_material_present tr1
         then (tr1\<lparr>is_material_present := True,
                   material_start_time := Some current_time,
                   material_entry_time := Some (strftime_HMS current_time),
                   zone_timer := start_session (zone_timer tr1) current_time now\<rparr>, db)
         else (tr1, db))
      else
        (case last_detection_time tr of
           None \<Rightarrow> (tr, db)
         | Some last_seen \<Rightarrow>
             if is_material_present tr then
               (let time_since_last = total_seconds current_time last_seen in
                if time_since_last \<ge> material_lost_threshold tr
                then handle_material_exit tr current_time db
                else (tr, db))
             else (tr, db)))"

text \<open>A frame for one zone: the frame's timestamp, the detection flag, and the clock
  read by \<^verbatim>\<open>check_daily_reset\<close> while the frame is processed.\<close>

fun run_zone ::
  "IndependentAreaTracker \<Rightarrow> database \<Rightarrow> (datetime \<times> bool \<times> datetime) list
     \<Rightarrow> IndependentAreaTracker \<times> database" where
  "run_zone tr db [] = (tr, db)"
| "run_zone tr db ((t, detected, now) # frames) =
     (case update_detection tr t detected now db of (tr', db') \<Rightarrow> run_zone tr' db' frames)"

section \<open>FreetimeTracker\<close>

record FreetimeTracker =
  ft_name_db :: string
  is_freetime_active :: bool
  freetime_start_time :: "datetime option"
  freetime_threshold :: rat
  all_empty_start :: "datetime option"
  ft_timer :: DailyTimer

definition save_freetime_data ::
  "FreetimeTracker \<Rightarrow> string \<Rightarrow> datetime \<Rightarrow> datetime \<Rightarrow> string \<Rightarrow> database \<Rightarrow> database" where
  "save_freetime_data ft time_fmt t_in t_created rmk db =
     save_row (ft_name_db ft) 0 time_fmt t_in t_created rmk db"

text \<open>The argument \<open>reason\<close> only reaches the log message.\<close>

definition end_freetime ::
  "FreetimeTracker \<Rightarrow> datetime \<Rightarrow> string \<Rightarrow> database \<Rightarrow> FreetimeTracker \<times> database" where
  "end_freetime ft end_time reason db =
     (case freetime_start_time ft of
        None \<Rightarrow> (ft, db)
      | Some start \<Rightarrow>
          if \<not> is_freetime_active ft then (ft, db)
          else
            (let (session_duration, timer') = end_session (ft_timer ft) end_time;
                 time_fmt = format_duration session_duration;
                 db' = save_freetime_data ft time_fmt start end_time ''freetime'' db
             in (ft\<lparr>ft_timer := timer', is_freetime_active := False,
                    freetime_start_time := None\<rparr>, db')))"

definition update_freetime_status ::
  "FreetimeTracker \<Rightarrow> bool \<Rightarrow> datetime \<Rightarrow> datetime \<Rightarrow> database \<Rightarrow> FreetimeTracker \<times> database" where
  "update_freetime_status ft all_areas_empty current_time now db =
     (if all_areas_empty then
        (case all_empty_start ft of
           None \<Rightarrow> (ft\<lparr>all_empty_start := Some current_time\<rparr>, db)
         | Some es \<Rightarrow>
             (let empty_duration = total_seconds current_time es in
              if empty_duration \<ge> freetime_threshold ft \<and> \<not> is_freetime_active ft
              then (ft\<lparr>is_freetime_active := True,
                        freetime_start_time := Some current_time,
                        ft_timer := start_session (ft_timer ft) current_time now\<rparr>, db)
              else (ft, db)))
      else
        (case (if is_freetime_active ft
               then end_freetime ft current_time ''material_detected'' db else (ft, db)) of
           (ft', db') \<Rightarrow> (ft'\<lparr>all_empty_start := None\<rparr>, db')))"

fun run_freetime ::
  "FreetimeTracker \<Rightarrow> database \<Rightarrow> (bool \<times> datetime \<times> datetime) list
     \<Rightarrow> FreetimeTracker \<times> database" where
  "run_freetime ft db [] = (ft, db)"
| "run_freetime ft db ((all_empty, t, now) # frames) =
     (case update_freetime_status ft all_empty t now db of
        (ft', db') \<Rightarrow> run_freetime ft' db' frames)"

section \<open>GloveTracker\<close>

record GloveTracker =
  area_polygon :: "(int \<times> int) list"
  gt_name_db :: string
  is_glove_detected :: bool
  glove_start_time :: "datetime option"
  last_glove_detection :: "datetime option"
  glove_lost_threshold :: rat
  was_freetime_before_glove :: bool
  gt_timer :: DailyTimer

text \<open>\<^verbatim>\<open>cv2.pointPolygonTest\<close> belongs to OpenCV; it is a parameter \<open>ppt\<close> that returns a
  positive, zero or negative number for a point inside, on the edge of, or outside the
  polygon.\<close>

definition glove_is_inside_area ::
  "((int \<times> int) list \<Rightarrow> int \<times> int \<Rightarrow> rat) \<Rightarrow> GloveTracker \<Rightarrow> rat \<times> rat \<times> rat \<times> rat \<Rightarrow> bool" where
  "glove_is_inside_area ppt g obj_bbox =
     (case obj_bbox of
        (b0, b1, b2, b3) \<Rightarrow>
          (let obj_center_x = (b0 + b2) / 2; obj_center_y = (b1 + b3) / 2;
               point = (py_int obj_center_x, py_int obj_center_y);
               result = ppt (area_polygon g) point
           in result \<ge> 0))"

definition save_glove_data ::
  "GloveTracker \<Rightarrow> string \<Rightarrow> datetime \<Rightarrow> datetime \<Rightarrow> string \<Rightarrow> database \<Rightarrow> database" where
  "save_glove_data g time_fmt t_in t_created rmk db =
     save_row (gt_name_db g) 5 time_fmt t_in t_created rmk db"

definition handle_glove_exit ::
  "GloveTracker \<Rightarrow> datetime \<Rightarrow> database \<Rightarrow> GloveTracker \<times> database" where
  "handle_glove_exit g exit_time db =
     (case glove_start_time g of
        None \<Rightarrow> (g, db)
      | Some start \<Rightarrow>
          if \<not> is_glove_detected g then (g, db)
          else
            (case (if was_freetime_before_glove g
                   then (let (session_duration, timer') = end_session (gt_timer g) exit_time;
                             time_fmt = format_duration session_duration
                         in (g\<lparr>gt_timer := timer'\<rparr>,
                             save_glove_data g time_fmt start exit_time ''in_use'' db))
                   else (g, db)) of
               (g1, db') \<Rightarrow>
                 (g1\<lparr>is_glove_detected := False, glove_start_time := None,
                     last_glove_detection := None, was_freetime_before_glove := False\<rparr>, db')))"

text \<open>\<^verbatim>\<open>update_glove_detection\<close> receives the freetime tracker by reference and may end
  its session; the model returns the glove tracker, the freetime tracker and the
  database.\<close>

definition update_glove_detection ::
  "GloveTracker \<Rightarrow> datetime \<Rightarrow> bool \<Rightarrow> FreetimeTracker \<Rightarrow> datetime \<Rightarrow> database
     \<Rightarrow> GloveTracker \<times> FreetimeTracker \<times> database" where
  "update_glove_detection g current_time glove_detected ft now db =
     (if glove_detected then
        (let g1 = g\<lparr>last_glove_detection := Some current_time\<rparr> in
         if \<not> is_glove_detected g1 then
           (case (if is_freetime_active ft
                  then (case end_freetime ft current_time ''glove_detected'' db of
                          (ft', db') \<Rightarrow>
                            (g1\<lparr>was_freetime_before_glove := True,
                                gt_timer := start_session (gt_timer g1) current_time now\<rparr>,
                             ft', db'))
                  else (g1\<lparr>was_freetime_before_glove := False\<rparr>, ft, db)) of
              (g2, ft', db') \<Rightarrow>
                (g2\<lparr>is_glove_detected := True, glove_start_time := Some current_time\<rparr>,
                 ft', db'))
         else (g1, ft, db))
      else
        (case last_glove_detection g of
           None \<Rightarrow> (g, ft, db)
         | Some last_seen \<Rightarrow>
             if is_glove_detected g then
               (let time_since_last = total_seconds current_time last_seen in
                if time_since_last \<ge> glove_lost_threshold g
                then (case handle_glove_exit g current_time db of (g', db') \<Rightarrow> (g', ft, db'))
                else (g, ft, db))
             else (g, ft, db)))"


section \<open>Detections to per-zone flags\<close>

text \<open>One YOLO box: \<^verbatim>\<open>box.xyxy[0]\<close>, \<^verbatim>\<open>box.cls[0]\<close> and \<^verbatim>\<open>box.conf[0]\<close>. The confidence
  threshold \<^verbatim>\<open>0.6\<close> is the rational 6/10.\<close>

record yolo_box =
  xyxy :: "rat \<times> rat \<times> rat \<times> rat"
  box_cls :: rat
  box_conf :: rat

record EnhancedMaterialDippingDetection =
  area_trackers :: "(string \<times> IndependentAreaTracker) list"
  freetime_tracker :: FreetimeTracker
  glove_tracker :: GloveTracker

text \<open>The inner loop over the area trackers, which stops at the first zone that
  contains the box.\<close>

fun mark_first_area ::
  "(string \<times> IndependentAreaTracker) list \<Rightarrow> rat \<times> rat \<times> rat \<times> rat
     \<Rightarrow> (string \<times> bool) list \<Rightarrow> (string \<times> bool) list" where
  "mark_first_area [] bbox material_detections = material_detections"
| "mark_first_area ((name, tracker) # rest) bbox material_detections =
     (if is_inside_area tracker bbox then AList.update name True material_detections
      else mark_first_area rest bbox material_detections)"

definition process_box ::
  "((int \<times> int) list \<Rightarrow> int \<times> int \<Rightarrow> rat) \<Rightarrow> EnhancedMaterialDippingDetection
     \<Rightarrow> (string \<times> bool) list \<times> bool \<Rightarrow> yolo_box \<Rightarrow> (string \<times> bool) list \<times> bool" where
  "process_box ppt sys flags box =
     (case flags of
        (material_detections, glove_detected) \<Rightarrow>
          (let bbox = xyxy box; cls = py_int (box_cls box); conf = box_conf box in
           if cls = 0 \<and> conf > 6 / 10
           then (mark_first_area (area_trackers sys) bbox material_detections, glove_detected)
           else if cls = 2 \<and> conf > 6 / 10
           then (if glove_is_inside_area ppt (glove_tracker sys) bbox
                 then (material_detections, True)
                 else (material_detections, glove_detected))
           else (material_detections, glove_detected)))"

text \<open>Lines 938 to 959 of \<^verbatim>\<open>update_all_trackers\<close>; \<^verbatim>\<open>results[0].boxes\<close> may be
  \<^verbatim>\<open>None\<close>.\<close>

definition detection_flags ::
  "((int \<times> int) list \<Rightarrow> int \<times> int \<Rightarrow> rat) \<Rightarrow> EnhancedMaterialDippingDetection
     \<Rightarrow> yolo_box list option \<Rightarrow> (string \<times> bool) list \<times> bool" where
  "detection_flags ppt sys boxes =
     (let initial = (map (\<lambda>(area_name, tracker). (area_name, False)) (area_trackers sys), False)
      in case boxes of
           None \<Rightarrow> initial
         | Some bs \<Rightarrow> foldl (process_box ppt sys) initial bs)"


text \<open>The loop that feeds every area tracker its flag; a missing key would raise
  \<^verbatim>\<open>KeyError\<close>.\<close>

fun update_area_trackers ::
  "(string \<times> IndependentAreaTracker) list \<Rightarrow> (string \<times> bool) list \<Rightarrow> datetime \<Rightarrow> datetime
     \<Rightarrow> database \<Rightarrow> py_error + ((string \<times> IndependentAreaTracker) list \<times> database)" where
  "update_area_trackers [] material_detections current_time now db = Inr ([], db)"
| "update_area_trackers ((name, tracker) # rest) material_detections current_time now db =
     (case map_of material_detections name of
        None \<Rightarrow> Inl KeyError
      | Some detected \<Rightarrow>
          (case update_detection tracker current_time detected now db of
             (tracker', db') \<Rightarrow>
               (case update_area_trackers rest material_detections current_time now db' of
                  Inl e \<Rightarrow> Inl e
                | Inr (rest', db'') \<Rightarrow> Inr ((name, tracker') # rest', db''))))"

definition update_all_trackers ::
  "((int \<times> int) list \<Rightarrow> int \<times> int \<Rightarrow> rat) \<Rightarrow> EnhancedMaterialDippingDetection
     \<Rightarrow> yolo_box list option \<Rightarrow> datetime \<Rightarrow> datetime \<Rightarrow> database
     \<Rightarrow> py_error + (EnhancedMaterialDippingDetection \<times> database)" where
  "update_all_trackers ppt sys boxes current_time now db =
     (case detection_flags ppt sys boxes of
        (material_detections, glove_detected) \<Rightarrow>
          (case update_area_trackers (area_trackers sys) material_detections current_time now db of
             Inl e \<Rightarrow> Inl e
           | Inr (trackers', db1) \<Rightarrow>
               (let all_areas_empty = \<not> (\<exists>v \<in> set (map snd material_detections). v) in
                case update_freetime_status (freetime_tracker sys) all_areas_empty current_time
                       now db1 of
                  (ft1, db2) \<Rightarrow>
                    (case update_glove_detection (glove_tracker sys) current_time glove_detected
                            ft1 now db2 of
                       (g', ft2, db3) \<Rightarrow>
                         Inr (sys\<lparr>area_trackers := trackers', freetime_tracker := ft2,
                                  glove_tracker := g'\<rparr>, db3)))))"

section \<open>Frame queue\<close>

text \<open>
  \<^verbatim>\<open>queue.Queue(maxsize)\<close> as the producer in \<^verbatim>\<open>Receive\<close> uses it, with no consumer
  running in between: \<^verbatim>\<open>put(block=False)\<close> raises \<^verbatim>\<open>queue.Full\<close> when the queue holds
  \<open>maxsize\<close> items (a \<open>maxsize\<close> of zero or less means unbounded), \<^verbatim>\<open>get_nowait\<close>
  removes the oldest item or raises \<^verbatim>\<open>queue.Empty\<close>. An exception that escapes is
  returned beside the queue as it stands.
\<close>

record 'a py_queue =
  maxsize :: int
  items :: "'a list"

definition max_queue_size :: int where
  "max_queue_size = 100"

definition qsize :: "'a py_queue \<Rightarrow> nat" where
  "qsize q = length (items q)"

definition put_nowait :: "'a py_queue \<Rightarrow> 'a \<Rightarrow> py_error + 'a py_queue" where
  "put_nowait q x =
     (if 0 < maxsize q \<and> int (qsize q) \<ge> maxsize q then Inl QueueFull
      else Inr (q\<lparr>items := items q @ [x]\<rparr>))"

definition get_nowait :: "'a py_queue \<Rightarrow> py_error + ('a \<times> 'a py_queue)" where
  "get_nowait q = (case items q of [] \<Rightarrow> Inl QueueEmpty | x # xs \<Rightarrow> Inr (x, q\<lparr>items := xs\<rparr>))"

text \<open>\<^verbatim>\<open>for _ in range(n): frame_queue.get_nowait()\<close>\<close>

fun drop_oldest :: "nat \<Rightarrow> 'a py_queue \<Rightarrow> py_error option \<times> 'a py_queue" where
  "drop_oldest 0 q = (None, q)"
| "drop_oldest (Suc n) q =
     (case get_nowait q of
        Inl e \<Rightarrow> (Some e, q)
      | Inr (x, q') \<Rightarrow> drop_oldest n q')"

text \<open>The \<^verbatim>\<open>try\<close> statement of \<^verbatim>\<open>Receive\<close> that enqueues a frame (lines 1423 to 1431).\<close>

definition Receive_put :: "'a py_queue \<Rightarrow> 'a \<Rightarrow> py_error option \<times> 'a py_queue" where
  "Receive_put q frame =
     (case put_nowait q frame of
        Inr q' \<Rightarrow> (None, q')
      | Inl e \<Rightarrow>
          if e \<noteq> QueueFull then (Some e, q)
          else
            (case drop_oldest (qsize q div 2) q of
               (None, q1) \<Rightarrow>
                 (case put_nowait q1 frame of
                    Inr q2 \<Rightarrow> (None, q2)
                  | Inl e1 \<Rightarrow> (Some e1, q1))
             | (Some e1, q1) \<Rightarrow>
                 if e1 = QueueEmpty
                 then (case put_nowait q1 frame of
                         Inr q2 \<Rightarrow> (None, q2)
                       | Inl e2 \<Rightarrow> (Some e2, q1))
                 else (Some e1, q1)))"

text \<open>The frame sequences of the debounce property: every frame without a detection
  comes less than the threshold after the most recent detection.\<close>

fun gaps_below :: "rat \<Rightarrow> datetime \<Rightarrow> (datetime \<times> bool \<times> datetime) list \<Rightarrow> bool" where
  "gaps_below th last_seen [] = True"
| "gaps_below th last_seen ((t, detected, now) # frames) =
     (if detected then gaps_below th t frames
      else total_seconds t last_seen < th \<and> gaps_below th last_seen frames)"




section \<open>Concrete values used for evaluation\<close>

definition mk_datetime :: "int \<Rightarrow> int \<Rightarrow> int \<Rightarrow> int \<Rightarrow> int \<Rightarrow> datetime" where
  "mk_datetime d h m s us =
     \<lparr>date_ordinal = d, hour = h, minute = m, second = s, microsecond = us\<rparr>"

text \<open>The constructors, as the \<^verbatim>\<open>__init__\<close> methods set the fields. \<open>now\<close> is the clock
  read by \<^verbatim>\<open>DailyTimer.__init__\<close>; \<open>number\<close> is the value of
  \<^verbatim>\<open>int(area_name.split()[1])\<close>.\<close>

definition DailyTimer_init :: "string \<Rightarrow> datetime \<Rightarrow> DailyTimer" where
  "DailyTimer_init name now =
     \<lparr>area_name = name, daily_total_seconds = 0, last_reset_date = date_ordinal now,
      current_session_start = None, is_active = False\<rparr>"

definition IndependentAreaTracker_init ::
  "string \<Rightarrow> rat \<times> rat \<times> rat \<times> rat \<Rightarrow> string \<Rightarrow> int \<Rightarrow> datetime \<Rightarrow> IndependentAreaTracker" where
  "IndependentAreaTracker_init name bbox name_db number now =
     \<lparr>zone_name = name, area_bbox = bbox, zone_name_db = name_db, area_number = number,
      is_material_present = False, material_start_time = None, last_detection_time = None,
      material_entry_time = None, zone_timer = DailyTimer_init name now,
      material_lost_threshold = 1\<rparr>"

definition FreetimeTracker_init :: "string \<Rightarrow> datetime \<Rightarrow> FreetimeTracker" where
  "FreetimeTracker_init name_db now =
     \<lparr>ft_name_db = name_db, is_freetime_active = False, freetime_start_time = None,
      freetime_threshold = 2, all_empty_start = None,
      ft_timer = DailyTimer_init ''Freetime'' now\<rparr>"



definition empty_database :: database where
  "empty_database = \<lparr>connected = True, iot_lacquerings = []\<rparr>"

definition full_queue :: "nat py_queue" where
  "full_queue = \<lparr>maxsize = max_queue_size, items = [0..<100]\<rparr>"



text \<open>Zone 1 after a first detection at 10:00:00, and frames whose gaps stay below one
  second.\<close>

definition occupied_tracker :: IndependentAreaTracker where
  "occupied_tracker =
     fst (update_detection
            (IndependentAreaTracker_init ''Area 1'' (552, 292, 674, 422) ''bak_alkali'' 1
               (mk_datetime 739000 9 0 0 0))
            (mk_datetime 739000 10 0 0 0) True (mk_datetime 739000 10 0 0 0) empty_database)"

definition short_gap_frames :: "(datetime \<times> bool \<times> datetime) list" where
  "short_gap_frames =
     [(mk_datetime 739000 10 0 0 500000, False, mk_datetime 739000 10 0 0 500000),
      (mk_datetime 739000 10 0 0 900000, True, mk_datetime 739000 10 0 0 900000),
      (mk_datetime 739000 10 0 1 800000, False, mk_datetime 739000 10 0 1 800000)]"

text \<open>Zone 1 as constructed, and a frame at 10:00:\<open>s\<close> plus \<open>us\<close> microseconds whose
  clock read equals its timestamp.\<close>

definition area_1 :: IndependentAreaTracker where
  "area_1 = IndependentAreaTracker_init ''Area 1'' (552, 292, 674, 422) ''bak_alkali'' 1
              (mk_datetime 739000 9 0 0 0)"

definition at_10_00 :: "int \<Rightarrow> int \<Rightarrow> bool \<Rightarrow> datetime \<times> bool \<times> datetime" where
  "at_10_00 s us detected = (mk_datetime 739000 10 0 s us, detected, mk_datetime 739000 10 0 s us)"

text \<open>The freetime tracker as constructed, and a frame at 09:00:\<open>s\<close> plus \<open>us\<close>
  microseconds.\<close>

definition freetime_0 :: FreetimeTracker where
  "freetime_0 = FreetimeTracker_init ''bak_alkali'' (mk_datetime 739000 8 0 0 0)"

definition at_09_00 :: "int \<Rightarrow> int \<Rightarrow> bool \<Rightarrow> bool \<times> datetime \<times> datetime" where
  "at_09_00 s us all_empty =
     (all_empty, mk_datetime 739000 9 0 s us, mk_datetime 739000 9 0 s us)"




definition example_timer :: DailyTimer where
  "example_timer =
     \<lparr>area_name = ''Area 1'', daily_total_seconds = 40, last_reset_date = 739000,
      current_session_start = Some (mk_datetime 739000 23 59 50 0), is_active = True\<rparr>"

section \<open>Properties of DailyTimer\<close>

text \<open>
  Claim C5. \<^verbatim>\<open>end_session\<close> returns 0 and leaves the timer as it is when no session is
  open; when a session is open it adds \<open>end_time - current_session_start\<close> (in seconds)
  to \<open>daily_total_seconds\<close>, clears the session and returns that duration; and
  \<^verbatim>\<open>get_daily_total\<close> is the accumulated total plus the live elapsed time of an open
  session, and the accumulated total alone otherwise.
\<close>

theorem C5_end_session_and_daily_total:
  "(\<not> session_open t \<longrightarrow> end_session t now = (0, t) \<and> get_daily_total t now = daily_total_seconds t)
   \<and> (is_active t \<and> current_session_start t = Some s \<longrightarrow>
        end_session t now =
          (total_seconds now s,
           t\<lparr>daily_total_seconds := daily_total_seconds t + total_seconds now s,
             is_active := False, current_session_start := None\<rparr>)
        \<and> \<not> session_open (snd (end_session t now))
        \<and> get_daily_total t now = daily_total_seconds t + total_seconds now s)"
  by (auto simp: session_open_def end_session_def get_daily_total_def
      get_current_session_duration_def Let_def split: option.splits)

theorem C5_witness:
  "is_active example_timer
   \<and> current_session_start example_timer = Some (mk_datetime 739000 23 59 50 0)
   \<and> \<not> session_open (snd (end_session example_timer (mk_datetime 739001 0 0 5 0)))
   \<and> fst (end_session example_timer (mk_datetime 739001 0 0 5 0)) = 15
   \<and> get_daily_total example_timer (mk_datetime 739001 0 0 5 0) = 55
   \<and> end_session (snd (end_session example_timer (mk_datetime 739001 0 0 5 0)))
        (mk_datetime 739001 0 0 9 0)
      = (0, snd (end_session example_timer (mk_datetime 739001 0 0 5 0)))"
  using C5_end_session_and_daily_total
          [of example_timer "mk_datetime 739001 0 0 5 0" "mk_datetime 739000 23 59 50 0"]
        C5_end_session_and_daily_total
          [of "snd (end_session example_timer (mk_datetime 739001 0 0 5 0))"
              "mk_datetime 739001 0 0 9 0" "mk_datetime 739000 23 59 50 0"]
  by (simp add: example_timer_def mk_datetime_def session_open_def total_seconds_def
      to_microseconds_def)


text \<open>
  Claim C9. \<^verbatim>\<open>force_daily_reset\<close> zeroes the accumulator and sets the reset date, and
  leaves \<open>is_active\<close> and \<open>current_session_start\<close> as they are; a session that is open
  at the reset stays open, and when it ends its whole duration, counted from its start
  before the reset, is what the new accumulator holds.
\<close>

theorem C9_force_daily_reset_keeps_session:
  "daily_total_seconds (force_daily_reset t now) = 0
   \<and> last_reset_date (force_daily_reset t now) = date_ordinal now
   \<and> is_active (force_daily_reset t now) = is_active t
   \<and> current_session_start (force_daily_reset t now) = current_session_start t
   \<and> session_open (force_daily_reset t now) = session_open t
   \<and> (is_active t \<and> current_session_start t = Some s \<longrightarrow>
        fst (end_session (force_daily_reset t now) e) = total_seconds e s
        \<and> daily_total_seconds (snd (end_session (force_daily_reset t now) e))
            = total_seconds e s)"
  by (simp add: force_daily_reset_def session_open_def end_session_def Let_def)

theorem C9_witness:
  "is_active example_timer
   \<and> current_session_start example_timer = Some (mk_datetime 739000 23 59 50 0)
   \<and> session_open (force_daily_reset example_timer (mk_datetime 739001 0 0 0 0))
   \<and> fst (end_session (force_daily_reset example_timer (mk_datetime 739001 0 0 0 0))
            (mk_datetime 739001 0 0 5 0)) = 15
   \<and> daily_total_seconds
        (snd (end_session (force_daily_reset example_timer (mk_datetime 739001 0 0 0 0))
               (mk_datetime 739001 0 0 5 0))) = 15"
  using C9_force_daily_reset_keeps_session
          [of example_timer "mk_datetime 739001 0 0 0 0" "mk_datetime 739000 23 59 50 0"
              "mk_datetime 739001 0 0 5 0"]
  by (simp add: example_timer_def mk_datetime_def total_seconds_def to_microseconds_def
      session_open_def)

section \<open>Properties of the shift calendar\<close>

text \<open>
  Claim C2, as stated, fails: the source compares the minute only, so every time of day
  from 00:15:01 to 00:15:59 is in \<open>Shift_2\<close> with the previous day as log date, outside
  the range 00:00:00 to 00:15:00 that the claim gives.
\<close>

theorem C2_counterexample:
  "get_current_shift (mk_datetime 739000 0 15 30 0) = ''Shift_2''
   \<and> \<not> spec_shift_2_range (mk_datetime 739000 0 15 30 0)
   \<and> get_log_date_for_shift (mk_datetime 739000 0 15 30 0) = Inr 738999
   \<and> spec_log_date (mk_datetime 739000 0 15 30 0) = 739000"
  by (simp add: get_current_shift_def spec_shift_2_range_def get_log_date_for_shift_def
      spec_log_date_def mk_datetime_def hms_def time_of_day_def date_minus_one_day_def)

text \<open>
  Claim C2, amended. For every timestamp (after \<^verbatim>\<open>date.min\<close>) the shift is \<open>Shift_1\<close>
  exactly when the time of day is in 07:10:00 to 15:59:59, \<open>Shift_2\<close> exactly when it is
  in 16:00:00 to 23:59:59 or 00:00:00 to 00:15:59, and \<open>Shift_3\<close> exactly when it is in
  00:16:00 to 07:09:59; the log date is the previous day exactly when the shift is
  \<open>Shift_3\<close>, or \<open>Shift_2\<close> with a time of day of at most 00:15:59, and the calendar
  date otherwise.
\<close>

theorem C2_shift_and_log_date:
  assumes "valid_datetime dt" and "1 < date_ordinal dt"
  shows "(get_current_shift dt = ''Shift_1'' \<longleftrightarrow>
            hms 7 10 0 \<le> time_of_day dt \<and> time_of_day dt \<le> hms 15 59 59)
       \<and> (get_current_shift dt = ''Shift_2'' \<longleftrightarrow>
            (hms 16 0 0 \<le> time_of_day dt \<and> time_of_day dt \<le> hms 23 59 59)
            \<or> (hms 0 0 0 \<le> time_of_day dt \<and> time_of_day dt \<le> hms 0 15 59))
       \<and> (get_current_shift dt = ''Shift_3'' \<longleftrightarrow>
            hms 0 16 0 \<le> time_of_day dt \<and> time_of_day dt \<le> hms 7 9 59)
       \<and> get_log_date_for_shift dt =
           Inr (if get_current_shift dt = ''Shift_3''
                   \<or> (get_current_shift dt = ''Shift_2'' \<and> time_of_day dt \<le> hms 0 15 59)
                then date_ordinal dt - 1 else date_ordinal dt)"
  using assms
  unfolding valid_datetime_def get_current_shift_def get_log_date_for_shift_def
    date_minus_one_day_def hms_def time_of_day_def Let_def
  by (auto; presburger?)

text \<open>The three instants the specification singles out, and the instant of the
  counterexample.\<close>

theorem C2_witness:
  "valid_datetime (mk_datetime 739000 0 15 0 0) \<and> 1 < date_ordinal (mk_datetime 739000 0 15 0 0)
   \<and> get_current_shift (mk_datetime 739000 0 15 0 0) = ''Shift_2''
   \<and> get_log_date_for_shift (mk_datetime 739000 0 15 0 0) = Inr 738999
   \<and> get_current_shift (mk_datetime 739000 0 16 0 0) = ''Shift_3''
   \<and> get_log_date_for_shift (mk_datetime 739000 0 16 0 0) = Inr 738999
   \<and> get_current_shift (mk_datetime 739000 7 10 0 0) = ''Shift_1''
   \<and> get_log_date_for_shift (mk_datetime 739000 7 10 0 0) = Inr 739000
   \<and> get_current_shift (mk_datetime 739000 0 15 30 0) = ''Shift_2''
   \<and> get_log_date_for_shift (mk_datetime 739000 0 15 30 0) = Inr 738999"
  using C2_shift_and_log_date [of "mk_datetime 739000 0 15 0 0"]
        C2_shift_and_log_date [of "mk_datetime 739000 0 16 0 0"]
        C2_shift_and_log_date [of "mk_datetime 739000 7 10 0 0"]
        C2_shift_and_log_date [of "mk_datetime 739000 0 15 30 0"]
  by (simp add: valid_datetime_def mk_datetime_def hms_def time_of_day_def)

section \<open>Exit handlers\<close>

text \<open>
  Claim C7. \<^verbatim>\<open>end_freetime\<close> without an active freetime session and
  \<^verbatim>\<open>handle_material_exit\<close> without a material session change neither the tracker (its
  daily timer included) nor the database; and after any call of either, a second call
  changes nothing.
\<close>

theorem C7_exit_idempotent:
  "(\<not> (is_freetime_active ft \<and> freetime_start_time ft \<noteq> None) \<longrightarrow>
      end_freetime ft t reason db = (ft, db))
   \<and> (\<not> (is_material_present tr \<and> material_start_time tr \<noteq> None) \<longrightarrow>
      handle_material_exit tr t db = (tr, db))
   \<and> (case end_freetime ft t reason db of
        (ft', db') \<Rightarrow> end_freetime ft' t2 reason2 db' = (ft', db'))
   \<and> (case handle_material_exit tr t db of
        (tr', db') \<Rightarrow> handle_material_exit tr' t2 db' = (tr', db'))"
  by (auto simp: end_freetime_def handle_material_exit_def Let_def
      split: option.splits prod.splits)

theorem C7_witness:
  "\<not> (is_freetime_active (FreetimeTracker_init ''bak_alkali'' (mk_datetime 739000 9 0 0 0))
       \<and> freetime_start_time (FreetimeTracker_init ''bak_alkali'' (mk_datetime 739000 9 0 0 0))
           \<noteq> None)
   \<and> end_freetime (FreetimeTracker_init ''bak_alkali'' (mk_datetime 739000 9 0 0 0))
        (mk_datetime 739000 9 0 1 0) ''system_shutdown'' empty_database
      = (FreetimeTracker_init ''bak_alkali'' (mk_datetime 739000 9 0 0 0), empty_database)
   \<and> \<not> (is_material_present
          (IndependentAreaTracker_init ''Area 1'' (552, 292, 674, 422) ''bak_alkali'' 1
             (mk_datetime 739000 9 0 0 0))
        \<and> material_start_time
            (IndependentAreaTracker_init ''Area 1'' (552, 292, 674, 422) ''bak_alkali'' 1
               (mk_datetime 739000 9 0 0 0)) \<noteq> None)
   \<and> handle_material_exit
        (IndependentAreaTracker_init ''Area 1'' (552, 292, 674, 422) ''bak_alkali'' 1
           (mk_datetime 739000 9 0 0 0))
        (mk_datetime 739000 9 0 1 0) empty_database
      = (IndependentAreaTracker_init ''Area 1'' (552, 292, 674, 422) ''bak_alkali'' 1
           (mk_datetime 739000 9 0 0 0), empty_database)"
  using C7_exit_idempotent
          [of "FreetimeTracker_init ''bak_alkali'' (mk_datetime 739000 9 0 0 0)"
              "mk_datetime 739000 9 0 1 0" "''system_shutdown''" empty_database
              "IndependentAreaTracker_init ''Area 1'' (552, 292, 674, 422) ''bak_alkali'' 1
                 (mk_datetime 739000 9 0 0 0)"]
  by (simp add: FreetimeTracker_init_def IndependentAreaTracker_init_def)

section \<open>Frame queue overflow\<close>

lemma drop_oldest_enough:
  "n \<le> length (items q) \<Longrightarrow> drop_oldest n q = (None, q\<lparr>items := drop n (items q)\<rparr>)"
proof (induction n arbitrary: q)
  case 0
  then show ?case by simp
next
  case (Suc n)
  then obtain x xs where xs: "items q = x # xs" by (cases "items q") auto
  with Suc.prems have "n \<le> length (items (q\<lparr>items := xs\<rparr>))" by simp
  from Suc.IH[OF this] xs show ?case by (simp add: get_nowait_def)
qed

lemma Receive_put_full:
  assumes "2 \<le> maxsize q" and "int (qsize q) = maxsize q"
  shows "Receive_put q frame =
           (None, q\<lparr>items := drop (qsize q div 2) (items q) @ [frame]\<rparr>)"
proof -
  have full: "put_nowait q frame = Inl QueueFull"
    using assms by (simp add: put_nowait_def)
  have le: "qsize q div 2 \<le> length (items q)" by (simp add: qsize_def)
  have d: "drop_oldest (qsize q div 2) q = (None, q\<lparr>items := drop (qsize q div 2) (items q)\<rparr>)"
    by (rule drop_oldest_enough[OF le])
  have pos: "0 < qsize q div 2" using assms by (simp add: qsize_def) 
  have room: "put_nowait (q\<lparr>items := drop (qsize q div 2) (items q)\<rparr>) frame
              = Inr (q\<lparr>items := drop (qsize q div 2) (items q) @ [frame]\<rparr>)"
    using assms pos by (simp add: put_nowait_def qsize_def) 
  show ?thesis by (simp add: Receive_put_def full d room)
qed

text \<open>
  Claim C8. When the frame queue of the program is full and nothing is taken from it,
  enqueueing a frame removes the oldest half of the queued frames and appends the new
  frame: the queue is then no longer than its capacity and the new frame is in it, as
  the newest item.
\<close>

theorem C8_overflow:
  assumes "maxsize q = max_queue_size" and "int (qsize q) = maxsize q"
  shows "Receive_put q frame = (None, q\<lparr>items := drop (qsize q div 2) (items q) @ [frame]\<rparr>)
         \<and> int (qsize (snd (Receive_put q frame))) \<le> maxsize q
         \<and> last (items (snd (Receive_put q frame))) = frame
         \<and> frame \<in> set (items (snd (Receive_put q frame)))"
proof -
  have "2 \<le> maxsize q" using assms by (simp add: max_queue_size_def)
  from Receive_put_full[OF this assms(2)] assms show ?thesis
    by (simp add: qsize_def max_queue_size_def) 
qed

theorem C8_witness:
  "maxsize full_queue = max_queue_size \<and> int (qsize full_queue) = maxsize full_queue
   \<and> items (snd (Receive_put full_queue 100)) = [50..<101]
   \<and> qsize (snd (Receive_put full_queue 100)) = 51
   \<and> last (items (snd (Receive_put full_queue 100))) = 100"
  using C8_overflow [of full_queue 100]
  by (simp add: full_queue_def max_queue_size_def qsize_def)

section \<open>Confidence threshold\<close>

lemma update_True_set: "(n, True) \<in> set (AList.update k True md) \<Longrightarrow> (n, True) \<in> set md \<or> n = k"
  by (induction md) (auto split: if_splits)

lemma mark_first_area_set:
  "(n, True) \<in> set (mark_first_area trs bbox md) \<Longrightarrow> (n, True) \<in> set md \<or> n \<in> fst ` set trs"
  by (induction trs bbox md rule: mark_first_area.induct) (auto dest: update_True_set split: if_splits)







section \<open>Zone occupancy and its debounce\<close>

lemma log_date_defined: "1 < date_ordinal t \<Longrightarrow> \<exists>ld. get_log_date_for_shift t = Inr ld"
  by (simp add: get_log_date_for_shift_def date_minus_one_day_def Let_def)

lemma save_row_connected:
  "connected db \<Longrightarrow> get_log_date_for_shift t_in = Inr ld \<Longrightarrow>
   save_row name_db number time_fmt t_in t_created rmk db =
     db\<lparr>iot_lacquerings := iot_lacquerings db @
          [\<lparr>area = name_db, time_format = time_fmt,
            time_int = py_int (total_seconds t_created t_in), time_in = strftime_seconds t_in,
            shift = get_current_shift t_in, remark = rmk, no_area = number,
            log_date = ld, created_at = strftime_seconds t_created\<rparr>]\<rparr>"
  by (simp add: save_row_def Let_def)

lemma update_detection_seen:
  "is_material_present tr \<Longrightarrow>
   update_detection tr t True now db = (tr\<lparr>last_detection_time := Some t\<rparr>, db)"
  by (simp add: update_detection_def Let_def)

lemma update_detection_short_gap:
  "last_detection_time tr = Some l \<Longrightarrow> total_seconds t l < material_lost_threshold tr \<Longrightarrow>
   update_detection tr t False now db = (tr, db)"
  by (simp add: update_detection_def Let_def)

lemma update_detection_exit:
  "is_material_present tr \<Longrightarrow> last_detection_time tr = Some l \<Longrightarrow>
   material_lost_threshold tr \<le> total_seconds t l \<Longrightarrow>
   update_detection tr t False now db = handle_material_exit tr t db"
  by (simp add: update_detection_def Let_def)

lemma handle_material_exit_present:
  "is_material_present tr \<Longrightarrow> material_start_time tr = Some s \<Longrightarrow>
   handle_material_exit tr t db =
     (tr\<lparr>zone_timer := snd (end_session (zone_timer tr) t), is_material_present := False,
         material_start_time := None, material_entry_time := None,
         last_detection_time := None\<rparr>,
      save_row (zone_name_db tr) (area_number tr)
        (format_duration (fst (end_session (zone_timer tr) t))) s t ''in_use'' db)"
  by (simp add: handle_material_exit_def save_area_data_def Let_def split: prod.splits)

lemma end_session_closes: "\<not> session_open (snd (end_session tm t))"
  by (simp add: end_session_def session_open_def Let_def split: option.splits)

lemma run_zone_gaps:
  "is_material_present tr \<Longrightarrow> last_detection_time tr = Some l \<Longrightarrow>
   gaps_below (material_lost_threshold tr) l frames \<Longrightarrow>
   \<exists>l'. run_zone tr db frames = (tr\<lparr>last_detection_time := Some l'\<rparr>, db)"
proof (induction frames arbitrary: tr l)
  case Nil
  then have "tr\<lparr>last_detection_time := Some l\<rparr> = tr" by simp
  then show ?case by (metis run_zone.simps(1))
next
  case (Cons f frames)
  obtain t d now where f: "f = (t, d, now)" by (cases f) auto
  show ?case
  proof (cases d)
    case True
    let ?tr = "tr\<lparr>last_detection_time := Some t\<rparr>"
    from Cons.prems f True have g: "gaps_below (material_lost_threshold ?tr) t frames" by simp
    have "is_material_present ?tr" "last_detection_time ?tr = Some t"
      using Cons.prems by simp_all
    from Cons.IH[OF this g] obtain l' where
      "run_zone ?tr db frames = (?tr\<lparr>last_detection_time := Some l'\<rparr>, db)" by blast
    then show ?thesis using f True Cons.prems
      by (intro exI[of _ l']) (simp add: update_detection_seen)
  next
    case False
    from Cons.prems f False have s: "total_seconds t l < material_lost_threshold tr"
      and g: "gaps_below (material_lost_threshold tr) l frames" by simp_all
    from Cons.IH[OF Cons.prems(1,2) g] obtain l' where
      "run_zone tr db frames = (tr\<lparr>last_detection_time := Some l'\<rparr>, db)" by blast
    then show ?thesis using f False Cons.prems s
      by (intro exI[of _ l']) (simp add: update_detection_short_gap)
  qed
qed

lemma gaps_below_take: "gaps_below th l frames \<Longrightarrow> gaps_below th l (take n frames)"
proof (induction frames arbitrary: l n)
  case Nil
  then show ?case by simp
next
  case (Cons f frames)
  obtain t d now where f: "f = (t, d, now)" by (cases f) auto
  show ?case
  proof (cases n)
    case 0
    then show ?thesis by simp
  next
    case (Suc m)
    with Cons f show ?thesis by (cases d) simp_all
  qed
qed

text \<open>
  Claim C6. For a zone tracker that is occupied, with last detection at \<open>l\<close>: over any
  frames in which every frame without a detection comes less than
  \<open>material_lost_threshold\<close> after the most recent detection, the tracker stays
  occupied after every prefix, its daily timer is untouched and no row is written. A
  frame makes it empty only if it carries no detection and comes at least the threshold
  after the last detection; such a frame ends the timer session and writes one row with
  remark \<open>in_use\<close> (the database being reachable).
\<close>

theorem C6_debounce:
  assumes "is_material_present tr" and "last_detection_time tr = Some l"
  shows "(gaps_below (material_lost_threshold tr) l frames \<longrightarrow>
            is_material_present (fst (run_zone tr db (take n frames)))
            \<and> zone_timer (fst (run_zone tr db (take n frames))) = zone_timer tr
            \<and> snd (run_zone tr db (take n frames)) = db)
       \<and> (\<not> is_material_present (fst (update_detection tr t d now db)) \<longrightarrow>
            \<not> d \<and> material_lost_threshold tr \<le> total_seconds t l)
       \<and> (\<not> d \<and> material_lost_threshold tr \<le> total_seconds t l
           \<and> material_start_time tr = Some s \<and> connected db \<and> 1 < date_ordinal s \<longrightarrow>
            \<not> is_material_present (fst (update_detection tr t d now db))
            \<and> \<not> session_open (zone_timer (fst (update_detection tr t d now db)))
            \<and> (\<exists>r. iot_lacquerings (snd (update_detection tr t d now db))
                     = iot_lacquerings db @ [r]
                   \<and> remark r = ''in_use'' \<and> time_in r = strftime_seconds s))"
proof (intro conjI impI)
  assume "gaps_below (material_lost_threshold tr) l frames"
  then have "gaps_below (material_lost_threshold tr) l (take n frames)"
    by (rule gaps_below_take)
  from run_zone_gaps[OF assms this, of db] obtain l' where
    r: "run_zone tr db (take n frames) = (tr\<lparr>last_detection_time := Some l'\<rparr>, db)" by blast
  show "is_material_present (fst (run_zone tr db (take n frames)))"
    using r assms by simp
  show "zone_timer (fst (run_zone tr db (take n frames))) = zone_timer tr"
    using r by simp
  show "snd (run_zone tr db (take n frames)) = db"
    using r by simp
next
  assume a: "\<not> is_material_present (fst (update_detection tr t d now db))"
  show "\<not> d"
  proof
    assume d
    then show False using a assms by (simp add: update_detection_seen)
  qed
  show "material_lost_threshold tr \<le> total_seconds t l"
  proof (rule ccontr)
    assume "\<not> material_lost_threshold tr \<le> total_seconds t l"
    then have "total_seconds t l < material_lost_threshold tr" by simp
    from update_detection_short_gap[OF assms(2) this] \<open>\<not> d\<close> a assms show False by simp
  qed
next
  assume h: "\<not> d \<and> material_lost_threshold tr \<le> total_seconds t l
           \<and> material_start_time tr = Some s \<and> connected db \<and> 1 < date_ordinal s"
  then have d: "d = False" by simp
  from h obtain ld where ld: "get_log_date_for_shift s = Inr ld"
    using log_date_defined by blast
  have u: "update_detection tr t d now db =
     (tr\<lparr>zone_timer := snd (end_session (zone_timer tr) t), is_material_present := False,
         material_start_time := None, material_entry_time := None,
         last_detection_time := None\<rparr>,
      save_row (zone_name_db tr) (area_number tr)
        (format_duration (fst (end_session (zone_timer tr) t))) s t ''in_use'' db)"
    using h assms d by (simp add: update_detection_exit handle_material_exit_present)
  show "\<not> is_material_present (fst (update_detection tr t d now db))"
    by (simp add: u)
  show "\<not> session_open (zone_timer (fst (update_detection tr t d now db)))"
    by (simp add: u end_session_closes)
  have c: "connected db" using h by simp
  show "\<exists>r. iot_lacquerings (snd (update_detection tr t d now db)) = iot_lacquerings db @ [r]
           \<and> remark r = ''in_use'' \<and> time_in r = strftime_seconds s"
    by (simp add: u save_row_connected[OF c ld])
qed

lemma occupied_tracker_fields:
  "is_material_present occupied_tracker"
  "last_detection_time occupied_tracker = Some (mk_datetime 739000 10 0 0 0)"
  "material_start_time occupied_tracker = Some (mk_datetime 739000 10 0 0 0)"
  "material_lost_threshold occupied_tracker = 1"
  by (simp_all add: occupied_tracker_def update_detection_def IndependentAreaTracker_init_def
      Let_def)

theorem C6_witness:
  "is_material_present occupied_tracker
   \<and> last_detection_time occupied_tracker = Some (mk_datetime 739000 10 0 0 0)
   \<and> gaps_below (material_lost_threshold occupied_tracker) (mk_datetime 739000 10 0 0 0)
        short_gap_frames
   \<and> is_material_present (fst (run_zone occupied_tracker empty_database short_gap_frames))
   \<and> snd (run_zone occupied_tracker empty_database short_gap_frames) = empty_database
   \<and> material_lost_threshold occupied_tracker
        \<le> total_seconds (mk_datetime 739000 10 0 1 0) (mk_datetime 739000 10 0 0 0)
   \<and> connected empty_database
   \<and> \<not> is_material_present (fst (update_detection occupied_tracker
          (mk_datetime 739000 10 0 1 0) False (mk_datetime 739000 10 0 1 0) empty_database))
   \<and> (\<exists>r. iot_lacquerings (snd (update_detection occupied_tracker
          (mk_datetime 739000 10 0 1 0) False (mk_datetime 739000 10 0 1 0) empty_database))
            = iot_lacquerings empty_database @ [r] \<and> remark r = ''in_use'')"
proof -
  have g: "gaps_below (material_lost_threshold occupied_tracker) (mk_datetime 739000 10 0 0 0)
             short_gap_frames"
    by (simp add: occupied_tracker_fields short_gap_frames_def total_seconds_def
        to_microseconds_def mk_datetime_def)
  have e: "material_lost_threshold occupied_tracker
             \<le> total_seconds (mk_datetime 739000 10 0 1 0) (mk_datetime 739000 10 0 0 0)"
    by (simp add: occupied_tracker_fields total_seconds_def to_microseconds_def mk_datetime_def)
  have c: "connected empty_database" by (simp add: empty_database_def)
  have d: "1 < date_ordinal (mk_datetime 739000 10 0 0 0)" by (simp add: mk_datetime_def)
  have n: "take 3 short_gap_frames = short_gap_frames" by (simp add: short_gap_frames_def)
  note inst = C6_debounce [OF occupied_tracker_fields(1,2), where frames = short_gap_frames
          and n = 3 and db = empty_database and t = "mk_datetime 739000 10 0 1 0"
          and d = False and now = "mk_datetime 739000 10 0 1 0"
          and s = "mk_datetime 739000 10 0 0 0"]
  from inst g have p1: "is_material_present (fst (run_zone occupied_tracker empty_database short_gap_frames))
     \<and> snd (run_zone occupied_tracker empty_database short_gap_frames) = empty_database"
    unfolding n by blast
  from inst e c d occupied_tracker_fields(3)
  have p2: "\<not> is_material_present (fst (update_detection occupied_tracker
          (mk_datetime 739000 10 0 1 0) False (mk_datetime 739000 10 0 1 0) empty_database))
   \<and> (\<exists>r. iot_lacquerings (snd (update_detection occupied_tracker
          (mk_datetime 739000 10 0 1 0) False (mk_datetime 739000 10 0 1 0) empty_database))
            = iot_lacquerings empty_database @ [r] \<and> remark r = ''in_use'')"
    by blast
  from occupied_tracker_fields(1,2) g p1 e c p2 show ?thesis by blast
qed

section \<open>One zone session, end to end\<close>

lemma run_zone_append:
  "run_zone tr db (xs @ ys) = (case run_zone tr db xs of (tr', db') \<Rightarrow> run_zone tr' db' ys)"
  by (induction xs arbitrary: tr db) (auto split: prod.splits)

lemma run_zone_all_detected:
  "is_material_present tr \<Longrightarrow> \<forall>f \<in> set fs. fst (snd f) \<Longrightarrow> fs \<noteq> [] \<Longrightarrow>
   run_zone tr db fs = (tr\<lparr>last_detection_time := Some (fst (last fs))\<rparr>, db)"
proof (induction fs arbitrary: tr)
  case Nil
  then show ?case by simp
next
  case (Cons f fs)
  obtain t d now where f: "f = (t, d, now)" by (cases f) auto
  with Cons.prems have d: d by simp
  let ?tr = "tr\<lparr>last_detection_time := Some t\<rparr>"
  have step: "update_detection tr t d now db = (?tr, db)"
    using d Cons.prems(1) by (simp add: update_detection_seen)
  show ?case
  proof (cases "fs = []")
    case True
    with f step show ?thesis by simp
  next
    case False
    have "is_material_present ?tr" using Cons.prems(1) by simp
    moreover have "\<forall>f \<in> set fs. fst (snd f)" using Cons.prems(2) by simp
    ultimately have "run_zone ?tr db fs = (?tr\<lparr>last_detection_time := Some (fst (last fs))\<rparr>, db)"
      using False by (rule Cons.IH)
    with f step False show ?thesis by simp
  qed
qed

lemma run_zone_idle:
  "\<not> is_material_present tr \<Longrightarrow> \<forall>f \<in> set fs. \<not> fst (snd f) \<Longrightarrow> run_zone tr db fs = (tr, db)"
proof (induction fs)
  case Nil
  then show ?case by simp
next
  case (Cons f fs)
  obtain t d now where f: "f = (t, d, now)" by (cases f) auto
  with Cons.prems have "update_detection tr t d now db = (tr, db)"
    by (simp add: update_detection_def split: option.splits)
  with Cons f show ?case by simp
qed

lemma run_zone_short_gaps:
  "last_detection_time tr = Some l \<Longrightarrow>
   \<forall>f \<in> set fs. \<not> fst (snd f) \<and> total_seconds (fst f) l < material_lost_threshold tr \<Longrightarrow>
   run_zone tr db fs = (tr, db)"
proof (induction fs)
  case Nil
  then show ?case by simp
next
  case (Cons f fs)
  obtain t d now where f: "f = (t, d, now)" by (cases f) auto
  with Cons.prems have "update_detection tr t d now db = (tr, db)"
    by (simp add: update_detection_short_gap)
  with Cons f show ?case by simp
qed

lemma end_after_start:
  "\<not> is_active tm \<Longrightarrow> fst (end_session (start_session tm t0 now) e) = total_seconds e t0"
  by (simp add: start_session_def check_daily_reset_def end_session_def Let_def)

lemma update_detection_entry:
  "\<not> is_material_present tr \<Longrightarrow>
   update_detection tr t True now db =
     (tr\<lparr>last_detection_time := Some t, is_material_present := True,
         material_start_time := Some t, material_entry_time := Some (strftime_HMS t),
         zone_timer := start_session (zone_timer tr) t now\<rparr>, db)"
  by (simp add: update_detection_def Let_def)

lemma zone_session:
  assumes empty: "\<not> is_material_present tr0" and idle: "\<not> is_active (zone_timer tr0)"
    and conn: "connected db" and ld: "get_log_date_for_shift t0 = Inr ld"
    and dets: "\<forall>f \<in> set dets. fst (snd f)"
    and t1: "fst (last ((t0, True, n0) # dets)) = t1"
    and short: "\<forall>f \<in> set short. \<not> fst (snd f)
                  \<and> total_seconds (fst f) t1 < material_lost_threshold tr0"
    and lost: "material_lost_threshold tr0 \<le> total_seconds e t1"
    and rest: "\<forall>f \<in> set rest. \<not> fst (snd f)"
  shows "snd (run_zone tr0 db ((t0, True, n0) # dets @ short @ (e, False, ne) # rest)) =
           db\<lparr>iot_lacquerings := iot_lacquerings db @
                [\<lparr>area = zone_name_db tr0,
                  time_format = format_duration (total_seconds e t0),
                  time_int = py_int (total_seconds e t0), time_in = strftime_seconds t0,
                  shift = get_current_shift t0, remark = ''in_use'',
                  no_area = area_number tr0, log_date = ld,
                  created_at = strftime_seconds e\<rparr>]\<rparr>
         \<and> \<not> is_material_present
               (fst (run_zone tr0 db ((t0, True, n0) # dets @ short @ (e, False, ne) # rest)))"
proof -
  let ?tr1 = "tr0\<lparr>last_detection_time := Some t0, is_material_present := True,
         material_start_time := Some t0, material_entry_time := Some (strftime_HMS t0),
         zone_timer := start_session (zone_timer tr0) t0 n0\<rparr>"
  let ?tr2 = "?tr1\<lparr>last_detection_time := Some t1\<rparr>"
  have s1: "run_zone tr0 db [(t0, True, n0)] = (?tr1, db)"
    using empty by (simp add: update_detection_entry)
  have s2: "run_zone ?tr1 db dets = (?tr2, db)"
  proof (cases "dets = []")
    case True
    with t1 show ?thesis by simp
  next
    case False
    have "run_zone ?tr1 db dets = (?tr1\<lparr>last_detection_time := Some (fst (last dets))\<rparr>, db)"
      by (rule run_zone_all_detected) (use dets False in simp_all)
    with t1 False show ?thesis by simp
  qed
  have s3: "run_zone ?tr2 db short = (?tr2, db)"
    by (rule run_zone_short_gaps[where l = t1]) (use short in simp_all)
  let ?row = "\<lparr>area = zone_name_db tr0,
                  time_format = format_duration (total_seconds e t0),
                  time_int = py_int (total_seconds e t0), time_in = strftime_seconds t0,
                  shift = get_current_shift t0, remark = ''in_use'',
                  no_area = area_number tr0, log_date = ld,
                  created_at = strftime_seconds e\<rparr>"
  let ?db = "db\<lparr>iot_lacquerings := iot_lacquerings db @ [?row]\<rparr>"
  let ?tr3 = "?tr2\<lparr>zone_timer := snd (end_session (zone_timer ?tr2) e),
         is_material_present := False, material_start_time := None,
         material_entry_time := None, last_detection_time := None\<rparr>"
  have "update_detection ?tr2 e False ne db = handle_material_exit ?tr2 e db"
    by (rule update_detection_exit[where l = t1]) (use lost in simp_all)
  also have "\<dots> = (?tr3, save_row (zone_name_db ?tr2) (area_number ?tr2)
        (format_duration (fst (end_session (zone_timer ?tr2) e))) t0 e ''in_use'' db)"
    by (rule handle_material_exit_present) simp_all
  also have "\<dots> = (?tr3, ?db)"
    using idle by (simp add: save_row_connected[OF conn ld] end_after_start)
  finally have s4: "update_detection ?tr2 e False ne db = (?tr3, ?db)" .
  have s4': "run_zone ?tr2 db [(e, False, ne)] = (?tr3, ?db)"
    using s4 by simp
  have s5: "run_zone ?tr3 ?db rest = (?tr3, ?db)"
    by (rule run_zone_idle) (use rest in simp_all)
  have "run_zone tr0 db ((t0, True, n0) # dets @ short @ (e, False, ne) # rest)
        = run_zone tr0 db ([(t0, True, n0)] @ dets @ short @ [(e, False, ne)] @ rest)"
    by simp
  also have "\<dots> = (?tr3, ?db)"
    by (simp only: run_zone_append s1 s2 s3 s4' s5 prod.case)
  finally show ?thesis by simp
qed


lemma total_seconds_split: "total_seconds a c = total_seconds a b + total_seconds b c"
  by (simp add: total_seconds_def add_divide_distrib[symmetric])

lemma py_int_lower: "of_int k \<le> x \<Longrightarrow> 0 \<le> k \<Longrightarrow> k \<le> py_int x"
  by (simp add: py_int_def le_floor_iff)

lemma floor_rat_numeral_div [simp]:
  "\<lfloor>(numeral a :: rat) / numeral b\<rfloor> = numeral a div numeral b"
  using floor_divide_of_int_eq[of "numeral a" "numeral b", where ?'a = rat] by simp

lemma floor_rat_one_div [simp]: "\<lfloor>(1::rat) / numeral b\<rfloor> = 1 div numeral b"
  using floor_divide_of_int_eq[of 1 "numeral b", where ?'a = rat] by simp

lemmas eval_format = format_duration_def py_int_def py_floordiv_def py_mod_def fmt02d_def
      str_nat.simps digit_char_def Let_def

lemma format_6: "format_duration 6 = ''00:00:06''"
  by (simp add: eval_format)

lemma area_1_fields:
  "\<not> is_material_present area_1" "\<not> is_active (zone_timer area_1)"
  "material_lost_threshold area_1 = 1" "zone_name_db area_1 = ''bak_alkali''"
  "area_number area_1 = 1"
  by (simp_all add: area_1_def IndependentAreaTracker_init_def DailyTimer_init_def)

text \<open>
  Claim C3, as stated, fails: with one frame per second, detections from 10:00:00 to
  10:00:05 and none from 10:00:06 on, the single row has a duration of 6 seconds, not 5.
\<close>

theorem C3_counterexample:
  "iot_lacquerings
     (snd (run_zone area_1 empty_database
        [at_10_00 0 0 True, at_10_00 1 0 True, at_10_00 2 0 True, at_10_00 3 0 True,
         at_10_00 4 0 True, at_10_00 5 0 True, at_10_00 6 0 False, at_10_00 7 0 False]))
   = [\<lparr>area = ''bak_alkali'', time_format = ''00:00:06'', time_int = 6,
       time_in = mk_datetime 739000 10 0 0 0, shift = ''Shift_1'', remark = ''in_use'',
       no_area = 1, log_date = 739000, created_at = mk_datetime 739000 10 0 6 0\<rparr>]
   \<and> map time_int (iot_lacquerings
     (snd (run_zone area_1 empty_database
        [at_10_00 0 0 True, at_10_00 1 0 True, at_10_00 2 0 True, at_10_00 3 0 True,
         at_10_00 4 0 True, at_10_00 5 0 True, at_10_00 6 0 False, at_10_00 7 0 False])))
     \<noteq> [5]"
proof -
  let ?t0 = "mk_datetime 739000 10 0 0 0" and ?e = "mk_datetime 739000 10 0 6 0"
  have ld: "get_log_date_for_shift ?t0 = Inr 739000"
    by (simp add: get_log_date_for_shift_def get_current_shift_def mk_datetime_def)
  have z: "snd (run_zone area_1 empty_database
        ((?t0, True, ?t0) # [at_10_00 1 0 True, at_10_00 2 0 True, at_10_00 3 0 True,
         at_10_00 4 0 True, at_10_00 5 0 True] @ [] @ (?e, False, ?e) # [at_10_00 7 0 False]))
     = empty_database\<lparr>iot_lacquerings := iot_lacquerings empty_database @
                [\<lparr>area = zone_name_db area_1,
                  time_format = format_duration (total_seconds ?e ?t0),
                  time_int = py_int (total_seconds ?e ?t0), time_in = strftime_seconds ?t0,
                  shift = get_current_shift ?t0, remark = ''in_use'',
                  no_area = area_number area_1, log_date = 739000,
                  created_at = strftime_seconds ?e\<rparr>]\<rparr>"
    by (rule zone_session[OF area_1_fields(1,2) _ ld, where ?t1.0 = "mk_datetime 739000 10 0 5 0",
          THEN conjunct1])
       (simp_all add: empty_database_def at_10_00_def area_1_fields total_seconds_def
          to_microseconds_def mk_datetime_def)
  have six: "total_seconds ?e ?t0 = 6"
    by (simp add: total_seconds_def to_microseconds_def mk_datetime_def)
  have sh: "get_current_shift ?t0 = ''Shift_1''"
    by (simp add: get_current_shift_def mk_datetime_def)
  have st0: "strftime_seconds ?t0 = ?t0" and ste: "strftime_seconds ?e = ?e"
    by (simp_all add: strftime_seconds_def mk_datetime_def)
  have r: "iot_lacquerings
     (snd (run_zone area_1 empty_database
        [at_10_00 0 0 True, at_10_00 1 0 True, at_10_00 2 0 True, at_10_00 3 0 True,
         at_10_00 4 0 True, at_10_00 5 0 True, at_10_00 6 0 False, at_10_00 7 0 False]))
   = [\<lparr>area = ''bak_alkali'', time_format = ''00:00:06'', time_int = 6,
       time_in = mk_datetime 739000 10 0 0 0, shift = ''Shift_1'', remark = ''in_use'',
       no_area = 1, log_date = 739000, created_at = mk_datetime 739000 10 0 6 0\<rparr>]"
    using z
    by (simp add: six sh st0 ste format_6 area_1_fields at_10_00_def empty_database_def
        py_int_def del: run_zone.simps)
  show ?thesis unfolding r by simp
qed

text \<open>
  Claim C3, amended. A zone tracker that is empty, fed frames in which material is
  detected from 10:00:00 to 10:00:05 and never afterwards, produces exactly one row, at
  the first frame \<open>e\<close> that comes at least one second after 10:00:05: its
  \<open>time_in\<close> is 10:00:00, its shift \<open>Shift_1\<close>, its remark \<open>in_use\<close>, and its
  duration is the whole seconds from 10:00:00 to \<open>e\<close>, which is at least 6: the
  session runs until the loss is confirmed, not until the last detection.
\<close>

theorem C3_session_includes_loss_delay:
  assumes empty: "\<not> is_material_present tr0" and idle: "\<not> is_active (zone_timer tr0)"
    and th: "material_lost_threshold tr0 = 1"
    and conn: "connected db"
    and dets: "\<forall>f \<in> set dets. fst (snd f)"
    and t1: "fst (last ((mk_datetime day 10 0 0 0, True, n0) # dets)) = mk_datetime day 10 0 5 0"
    and short: "\<forall>f \<in> set short. \<not> fst (snd f)
                  \<and> total_seconds (fst f) (mk_datetime day 10 0 5 0) < 1"
    and lost: "1 \<le> total_seconds e (mk_datetime day 10 0 5 0)"
    and rest: "\<forall>f \<in> set rest. \<not> fst (snd f)"
  shows "iot_lacquerings
           (snd (run_zone tr0 db
                   ((mk_datetime day 10 0 0 0, True, n0) # dets @ short @ (e, False, ne) # rest)))
         = iot_lacquerings db @
             [\<lparr>area = zone_name_db tr0,
               time_format = format_duration (total_seconds e (mk_datetime day 10 0 0 0)),
               time_int = py_int (total_seconds e (mk_datetime day 10 0 0 0)),
               time_in = mk_datetime day 10 0 0 0,
               shift = ''Shift_1'', remark = ''in_use'',
               no_area = area_number tr0, log_date = day,
               created_at = strftime_seconds e\<rparr>]
         \<and> 6 \<le> py_int (total_seconds e (mk_datetime day 10 0 0 0))"
proof -
  let ?t0 = "mk_datetime day 10 0 0 0" and ?t1 = "mk_datetime day 10 0 5 0"
  have ld: "get_log_date_for_shift ?t0 = Inr day"
    by (simp add: get_log_date_for_shift_def get_current_shift_def mk_datetime_def)
  have sh: "get_current_shift ?t0 = ''Shift_1''"
    by (simp add: get_current_shift_def mk_datetime_def)
  have tr: "strftime_seconds ?t0 = ?t0"
    by (simp add: strftime_seconds_def mk_datetime_def)
  have short': "\<forall>f \<in> set short. \<not> fst (snd f)
                  \<and> total_seconds (fst f) ?t1 < material_lost_threshold tr0"
    using short th by simp
  have lost': "material_lost_threshold tr0 \<le> total_seconds e ?t1"
    using lost th by simp
  note z = zone_session[OF empty idle conn ld dets t1 short' lost' rest, of ne]
  have five: "total_seconds ?t1 ?t0 = 5"
    by (simp add: total_seconds_def to_microseconds_def mk_datetime_def)
  have "total_seconds e ?t0 = total_seconds e ?t1 + 5"
    using total_seconds_split[of e ?t0 ?t1] five by simp
  with lost have "of_int 6 \<le> total_seconds e ?t0" by simp
  then have six: "6 \<le> py_int (total_seconds e ?t0)" by (rule py_int_lower) simp
  from z six show ?thesis by (simp add: sh tr)
qed

theorem C3_witness:
  "\<not> is_material_present area_1 \<and> \<not> is_active (zone_timer area_1)
   \<and> material_lost_threshold area_1 = 1 \<and> connected empty_database
   \<and> fst (last [at_10_00 0 0 True, at_10_00 2 500000 True, at_10_00 5 0 True])
       = mk_datetime 739000 10 0 5 0
   \<and> total_seconds (fst (at_10_00 5 500000 False)) (mk_datetime 739000 10 0 5 0) < 1
   \<and> 1 \<le> total_seconds (mk_datetime 739000 10 0 6 200000) (mk_datetime 739000 10 0 5 0)
   \<and> map time_int (iot_lacquerings
        (snd (run_zone area_1 empty_database
           [at_10_00 0 0 True, at_10_00 2 500000 True, at_10_00 5 0 True,
            at_10_00 5 500000 False, at_10_00 6 200000 False, at_10_00 7 0 False]))) = [6]
   \<and> map shift (iot_lacquerings
        (snd (run_zone area_1 empty_database
           [at_10_00 0 0 True, at_10_00 2 500000 True, at_10_00 5 0 True,
            at_10_00 5 500000 False, at_10_00 6 200000 False, at_10_00 7 0 False])))
       = [''Shift_1'']"
proof -
  have c: "connected empty_database" by (simp add: empty_database_def)
  have dets: "\<forall>f \<in> set [at_10_00 2 500000 True, at_10_00 5 0 True]. fst (snd f)"
    by (simp add: at_10_00_def)
  have t1: "fst (last ((mk_datetime 739000 10 0 0 0, True, mk_datetime 739000 10 0 0 0)
               # [at_10_00 2 500000 True, at_10_00 5 0 True])) = mk_datetime 739000 10 0 5 0"
    by (simp add: at_10_00_def)
  have short: "\<forall>f \<in> set [at_10_00 5 500000 False]. \<not> fst (snd f)
                  \<and> total_seconds (fst f) (mk_datetime 739000 10 0 5 0) < 1"
    by (simp add: at_10_00_def total_seconds_def to_microseconds_def mk_datetime_def)
  have lost: "1 \<le> total_seconds (mk_datetime 739000 10 0 6 200000) (mk_datetime 739000 10 0 5 0)"
    by (simp add: total_seconds_def to_microseconds_def mk_datetime_def)
  have rest: "\<forall>f \<in> set [at_10_00 7 0 False]. \<not> fst (snd f)"
    by (simp add: at_10_00_def)
  have d: "py_int (total_seconds (mk_datetime 739000 10 0 6 200000) (mk_datetime 739000 10 0 0 0)) = 6"
    by (simp add: total_seconds_def to_microseconds_def mk_datetime_def py_int_def)
  note inst = C3_session_includes_loss_delay
      [OF area_1_fields(1,2,3) c dets t1 short lost rest, of "mk_datetime 739000 10 0 6 200000"]
  have fr: "[at_10_00 0 0 True, at_10_00 2 500000 True, at_10_00 5 0 True,
            at_10_00 5 500000 False, at_10_00 6 200000 False, at_10_00 7 0 False]
        = (mk_datetime 739000 10 0 0 0, True, mk_datetime 739000 10 0 0 0)
            # [at_10_00 2 500000 True, at_10_00 5 0 True] @ [at_10_00 5 500000 False]
            @ (mk_datetime 739000 10 0 6 200000, False, mk_datetime 739000 10 0 6 200000)
            # [at_10_00 7 0 False]"
    by (simp add: at_10_00_def)
  have p: "map time_int (iot_lacquerings
        (snd (run_zone area_1 empty_database
           [at_10_00 0 0 True, at_10_00 2 500000 True, at_10_00 5 0 True,
            at_10_00 5 500000 False, at_10_00 6 200000 False, at_10_00 7 0 False]))) = [6]
   \<and> map shift (iot_lacquerings
        (snd (run_zone area_1 empty_database
           [at_10_00 0 0 True, at_10_00 2 500000 True, at_10_00 5 0 True,
            at_10_00 5 500000 False, at_10_00 6 200000 False, at_10_00 7 0 False])))
       = [''Shift_1'']"
    unfolding fr using inst[THEN conjunct1] by (simp add: d empty_database_def)
  from area_1_fields(1,2,3) c short lost p show ?thesis
    by (simp add: at_10_00_def)
qed

section \<open>One freetime session, end to end\<close>

lemma run_freetime_append:
  "run_freetime ft db (xs @ ys) =
     (case run_freetime ft db xs of (ft', db') \<Rightarrow> run_freetime ft' db' ys)"
  by (induction xs arbitrary: ft db) (auto split: prod.splits)

lemma freetime_first_empty:
  "all_empty_start ft = None \<Longrightarrow>
   update_freetime_status ft True t now db = (ft\<lparr>all_empty_start := Some t\<rparr>, db)"
  by (simp add: update_freetime_status_def)

lemma freetime_waiting:
  "all_empty_start ft = Some es \<Longrightarrow> total_seconds t es < freetime_threshold ft \<Longrightarrow>
   update_freetime_status ft True t now db = (ft, db)"
  by (simp add: update_freetime_status_def Let_def)

lemma freetime_activates:
  "all_empty_start ft = Some es \<Longrightarrow> freetime_threshold ft \<le> total_seconds t es \<Longrightarrow>
   \<not> is_freetime_active ft \<Longrightarrow>
   update_freetime_status ft True t now db =
     (ft\<lparr>is_freetime_active := True, freetime_start_time := Some t,
         ft_timer := start_session (ft_timer ft) t now\<rparr>, db)"
  by (simp add: update_freetime_status_def Let_def)

lemma freetime_stays_active:
  "all_empty_start ft = Some es \<Longrightarrow> is_freetime_active ft \<Longrightarrow>
   update_freetime_status ft True t now db = (ft, db)"
  by (simp add: update_freetime_status_def Let_def)

lemma end_freetime_active:
  "is_freetime_active ft \<Longrightarrow> freetime_start_time ft = Some a \<Longrightarrow>
   end_freetime ft t reason db =
     (ft\<lparr>ft_timer := snd (end_session (ft_timer ft) t), is_freetime_active := False,
         freetime_start_time := None\<rparr>,
      save_row (ft_name_db ft) 0 (format_duration (fst (end_session (ft_timer ft) t))) a t
        ''freetime'' db)"
  by (simp add: end_freetime_def save_freetime_data_def Let_def split: prod.splits)

lemma freetime_material:
  "is_freetime_active ft \<Longrightarrow> freetime_start_time ft = Some a \<Longrightarrow>
   update_freetime_status ft False t now db =
     (ft\<lparr>ft_timer := snd (end_session (ft_timer ft) t), is_freetime_active := False,
         freetime_start_time := None, all_empty_start := None\<rparr>,
      save_row (ft_name_db ft) 0 (format_duration (fst (end_session (ft_timer ft) t))) a t
        ''freetime'' db)"
  by (simp add: update_freetime_status_def end_freetime_active)

lemma run_freetime_waiting:
  "all_empty_start ft = Some es \<Longrightarrow>
   \<forall>f \<in> set fs. fst f \<and> total_seconds (fst (snd f)) es < freetime_threshold ft \<Longrightarrow>
   run_freetime ft db fs = (ft, db)"
proof (induction fs)
  case Nil
  then show ?case by simp
next
  case (Cons f fs)
  obtain b t now where f: "f = (b, t, now)" by (cases f) auto
  with Cons.prems have "update_freetime_status ft b t now db = (ft, db)"
    by (simp add: freetime_waiting)
  with Cons f show ?case by simp
qed

lemma run_freetime_active:
  "all_empty_start ft = Some es \<Longrightarrow> is_freetime_active ft \<Longrightarrow> \<forall>f \<in> set fs. fst f \<Longrightarrow>
   run_freetime ft db fs = (ft, db)"
proof (induction fs)
  case Nil
  then show ?case by simp
next
  case (Cons f fs)
  obtain b t now where f: "f = (b, t, now)" by (cases f) auto
  with Cons.prems have "update_freetime_status ft b t now db = (ft, db)"
    by (simp add: freetime_stays_active)
  with Cons f show ?case by simp
qed

lemma freetime_session:
  assumes fresh: "all_empty_start ft0 = None" and off: "\<not> is_freetime_active ft0"
    and idle: "\<not> is_active (ft_timer ft0)"
    and conn: "connected db" and ld: "get_log_date_for_shift a = Inr ld"
    and waiting: "\<forall>f \<in> set waiting. fst f
                    \<and> total_seconds (fst (snd f)) t0 < freetime_threshold ft0"
    and act: "freetime_threshold ft0 \<le> total_seconds a t0"
    and quiet: "\<forall>f \<in> set quiet. fst f"
  shows "snd (run_freetime ft0 db
                ((True, t0, n0) # waiting @ (True, a, na) # quiet @ [(False, e, ne)])) =
           db\<lparr>iot_lacquerings := iot_lacquerings db @
                [\<lparr>area = ft_name_db ft0,
                  time_format = format_duration (total_seconds e a),
                  time_int = py_int (total_seconds e a), time_in = strftime_seconds a,
                  shift = get_current_shift a, remark = ''freetime'',
                  no_area = 0, log_date = ld,
                  created_at = strftime_seconds e\<rparr>]\<rparr>"
proof -
  let ?ft1 = "ft0\<lparr>all_empty_start := Some t0\<rparr>"
  let ?ft2 = "?ft1\<lparr>is_freetime_active := True, freetime_start_time := Some a,
         ft_timer := start_session (ft_timer ?ft1) a na\<rparr>"
  let ?row = "\<lparr>area = ft_name_db ft0,
                  time_format = format_duration (total_seconds e a),
                  time_int = py_int (total_seconds e a), time_in = strftime_seconds a,
                  shift = get_current_shift a, remark = ''freetime'',
                  no_area = 0, log_date = ld,
                  created_at = strftime_seconds e\<rparr>"
  let ?db = "db\<lparr>iot_lacquerings := iot_lacquerings db @ [?row]\<rparr>"
  let ?ft3 = "?ft2\<lparr>ft_timer := snd (end_session (ft_timer ?ft2) e),
         is_freetime_active := False, freetime_start_time := None, all_empty_start := None\<rparr>"
  have s1: "run_freetime ft0 db [(True, t0, n0)] = (?ft1, db)"
    using fresh by (simp add: freetime_first_empty)
  have s2: "run_freetime ?ft1 db waiting = (?ft1, db)"
    by (rule run_freetime_waiting[where es = t0]) (use waiting in simp_all)
  have "update_freetime_status ?ft1 True a na db = (?ft2, db)"
    by (rule freetime_activates[where es = t0]) (use act off in simp_all)
  then have s3: "run_freetime ?ft1 db [(True, a, na)] = (?ft2, db)" by simp
  have s4: "run_freetime ?ft2 db quiet = (?ft2, db)"
    by (rule run_freetime_active[where es = t0]) (use quiet in simp_all)
  have "update_freetime_status ?ft2 False e ne db =
          (?ft3, save_row (ft_name_db ?ft2) 0
                   (format_duration (fst (end_session (ft_timer ?ft2) e))) a e ''freetime'' db)"
    by (rule freetime_material) simp_all
  also have "\<dots> = (?ft3, ?db)"
    using idle by (simp add: save_row_connected[OF conn ld] end_after_start)
  finally have "update_freetime_status ?ft2 False e ne db = (?ft3, ?db)" .
  then have s5: "run_freetime ?ft2 db [(False, e, ne)] = (?ft3, ?db)" by simp
  have "run_freetime ft0 db ((True, t0, n0) # waiting @ (True, a, na) # quiet @ [(False, e, ne)])
        = run_freetime ft0 db
            ([(True, t0, n0)] @ waiting @ [(True, a, na)] @ quiet @ [(False, e, ne)])"
    by simp
  also have "\<dots> = (?ft3, ?db)"
    by (simp only: run_freetime_append s1 s2 s3 s4 s5 prod.case)
  finally show ?thesis by simp
qed

lemma py_int_upper: "x < of_int (k + 1) \<Longrightarrow> 0 \<le> k \<Longrightarrow> py_int x \<le> k"
  by (auto simp: py_int_def floor_le_iff ceiling_le_iff)

lemma freetime_0_fields:
  "all_empty_start freetime_0 = None" "\<not> is_freetime_active freetime_0"
  "\<not> is_active (ft_timer freetime_0)" "freetime_threshold freetime_0 = 2"
  "ft_name_db freetime_0 = ''bak_alkali''"
  by (simp_all add: freetime_0_def FreetimeTracker_init_def DailyTimer_init_def)

lemma format_3_2: "format_duration (3 / 2) = ''00:00:01''"
  by (simp add: eval_format)

text \<open>
  Claim C4, as stated, fails: with all zones empty from 09:00:00, one frame per second,
  and material at 09:00:03.5, freetime starts at the frame of 09:00:02 and the single
  row has a duration of 1 second (1.5 s truncated), not about 3.
\<close>

theorem C4_counterexample:
  "iot_lacquerings
     (snd (run_freetime freetime_0 empty_database
        [at_09_00 0 0 True, at_09_00 1 0 True, at_09_00 2 0 True, at_09_00 3 0 True,
         at_09_00 3 500000 False]))
   = [\<lparr>area = ''bak_alkali'', time_format = ''00:00:01'', time_int = 1,
       time_in = mk_datetime 739000 9 0 2 0, shift = ''Shift_1'', remark = ''freetime'',
       no_area = 0, log_date = 739000, created_at = mk_datetime 739000 9 0 3 0\<rparr>]
   \<and> map time_int (iot_lacquerings
     (snd (run_freetime freetime_0 empty_database
        [at_09_00 0 0 True, at_09_00 1 0 True, at_09_00 2 0 True, at_09_00 3 0 True,
         at_09_00 3 500000 False])))
     \<noteq> [3]"
proof -
  let ?t0 = "mk_datetime 739000 9 0 0 0" and ?a = "mk_datetime 739000 9 0 2 0"
  let ?e = "mk_datetime 739000 9 0 3 500000"
  have ld: "get_log_date_for_shift ?a = Inr 739000"
    by (simp add: get_log_date_for_shift_def get_current_shift_def mk_datetime_def)
  have z: "snd (run_freetime freetime_0 empty_database
        ((True, ?t0, ?t0) # [at_09_00 1 0 True] @ (True, ?a, ?a) # [at_09_00 3 0 True]
           @ [(False, ?e, ?e)]))
     = empty_database\<lparr>iot_lacquerings := iot_lacquerings empty_database @
                [\<lparr>area = ft_name_db freetime_0,
                  time_format = format_duration (total_seconds ?e ?a),
                  time_int = py_int (total_seconds ?e ?a), time_in = strftime_seconds ?a,
                  shift = get_current_shift ?a, remark = ''freetime'',
                  no_area = 0, log_date = 739000,
                  created_at = strftime_seconds ?e\<rparr>]\<rparr>"
    by (rule freetime_session[OF freetime_0_fields(1,2,3) _ ld])
       (simp_all add: empty_database_def at_09_00_def freetime_0_fields total_seconds_def
          to_microseconds_def mk_datetime_def)
  have dur: "total_seconds ?e ?a = 3 / 2"
    by (simp add: total_seconds_def to_microseconds_def mk_datetime_def)
  have sh: "get_current_shift ?a = ''Shift_1''"
    by (simp add: get_current_shift_def mk_datetime_def)
  have sta: "strftime_seconds ?a = ?a"
    and ste: "strftime_seconds ?e = mk_datetime 739000 9 0 3 0"
    by (simp_all add: strftime_seconds_def mk_datetime_def)
  have r: "iot_lacquerings
     (snd (run_freetime freetime_0 empty_database
        [at_09_00 0 0 True, at_09_00 1 0 True, at_09_00 2 0 True, at_09_00 3 0 True,
         at_09_00 3 500000 False]))
   = [\<lparr>area = ''bak_alkali'', time_format = ''00:00:01'', time_int = 1,
       time_in = mk_datetime 739000 9 0 2 0, shift = ''Shift_1'', remark = ''freetime'',
       no_area = 0, log_date = 739000, created_at = mk_datetime 739000 9 0 3 0\<rparr>]"
    using z
    by (simp add: dur sh sta ste format_3_2 freetime_0_fields at_09_00_def empty_database_def
        py_int_def del: run_freetime.simps)
  show ?thesis unfolding r by simp
qed

text \<open>
  Claim C4, amended. A freetime tracker with no idle period under way, fed frames in
  which all zones are empty from 09:00:00 until material appears at 09:00:03.5, with
  \<open>a\<close> the first of these frames that comes at least two seconds after 09:00:00,
  produces exactly one row: its remark is \<open>freetime\<close>, its \<open>time_in\<close> is \<open>a\<close>, the
  moment freetime became active, and its duration is the whole seconds from \<open>a\<close> to
  09:00:03.5, which is at most 1.
\<close>

theorem C4_freetime_counts_from_activation:
  assumes fresh: "all_empty_start ft0 = None" and off: "\<not> is_freetime_active ft0"
    and idle: "\<not> is_active (ft_timer ft0)" and th: "freetime_threshold ft0 = 2"
    and conn: "connected db" and day: "1 < date_ordinal a"
    and waiting: "\<forall>f \<in> set waiting. fst f
                    \<and> total_seconds (fst (snd f)) (mk_datetime day 9 0 0 0) < 2"
    and act: "2 \<le> total_seconds a (mk_datetime day 9 0 0 0)"
    and quiet: "\<forall>f \<in> set quiet. fst f"
  shows "(\<exists>ld. iot_lacquerings
            (snd (run_freetime ft0 db
                    ((True, mk_datetime day 9 0 0 0, n0) # waiting @ (True, a, na) # quiet
                       @ [(False, mk_datetime day 9 0 3 500000, ne)])))
          = iot_lacquerings db @
              [\<lparr>area = ft_name_db ft0,
                time_format = format_duration (total_seconds (mk_datetime day 9 0 3 500000) a),
                time_int = py_int (total_seconds (mk_datetime day 9 0 3 500000) a),
                time_in = strftime_seconds a,
                shift = get_current_shift a, remark = ''freetime'',
                no_area = 0, log_date = ld,
                created_at = mk_datetime day 9 0 3 0\<rparr>])
         \<and> py_int (total_seconds (mk_datetime day 9 0 3 500000) a) \<le> 1"
proof -
  let ?t0 = "mk_datetime day 9 0 0 0" and ?e = "mk_datetime day 9 0 3 500000"
  from day obtain ld where ld: "get_log_date_for_shift a = Inr ld"
    using log_date_defined by blast
  have waiting': "\<forall>f \<in> set waiting. fst f
                    \<and> total_seconds (fst (snd f)) ?t0 < freetime_threshold ft0"
    using waiting th by simp
  have act': "freetime_threshold ft0 \<le> total_seconds a ?t0" using act th by simp
  note z = freetime_session[OF fresh off idle conn ld waiting' act' quiet, of n0 na ?e ne]
  have ce: "strftime_seconds ?e = mk_datetime day 9 0 3 0"
    by (simp add: strftime_seconds_def mk_datetime_def)
  have "total_seconds ?e ?t0 = 7 / 2"
    by (simp add: total_seconds_def to_microseconds_def mk_datetime_def)
  moreover have "total_seconds ?e ?t0 = total_seconds ?e a + total_seconds a ?t0"
    by (rule total_seconds_split)
  ultimately have "total_seconds ?e a \<le> 3 / 2" using act by simp
  then have "total_seconds ?e a < of_int (1 + 1)" by simp
  then have le: "py_int (total_seconds ?e a) \<le> 1" by (rule py_int_upper) simp
  from z le show ?thesis by (simp add: ce)
qed

theorem C4_witness:
  "all_empty_start freetime_0 = None \<and> \<not> is_freetime_active freetime_0
   \<and> \<not> is_active (ft_timer freetime_0) \<and> freetime_threshold freetime_0 = 2
   \<and> connected empty_database \<and> 1 < date_ordinal (mk_datetime 739000 9 0 2 500000)
   \<and> total_seconds (fst (snd (at_09_00 1 500000 True))) (mk_datetime 739000 9 0 0 0) < 2
   \<and> 2 \<le> total_seconds (mk_datetime 739000 9 0 2 500000) (mk_datetime 739000 9 0 0 0)
   \<and> map time_int (iot_lacquerings
        (snd (run_freetime freetime_0 empty_database
           [at_09_00 0 0 True, at_09_00 1 500000 True, at_09_00 2 500000 True,
            at_09_00 3 0 True, at_09_00 3 500000 False]))) = [1]
   \<and> map remark (iot_lacquerings
        (snd (run_freetime freetime_0 empty_database
           [at_09_00 0 0 True, at_09_00 1 500000 True, at_09_00 2 500000 True,
            at_09_00 3 0 True, at_09_00 3 500000 False]))) = [''freetime'']
   \<and> map time_in (iot_lacquerings
        (snd (run_freetime freetime_0 empty_database
           [at_09_00 0 0 True, at_09_00 1 500000 True, at_09_00 2 500000 True,
            at_09_00 3 0 True, at_09_00 3 500000 False]))) = [mk_datetime 739000 9 0 2 0]"
proof -
  let ?a = "mk_datetime 739000 9 0 2 500000"
  have c: "connected empty_database" by (simp add: empty_database_def)
  have day: "1 < date_ordinal ?a" by (simp add: mk_datetime_def)
  have waiting: "\<forall>f \<in> set [at_09_00 1 500000 True]. fst f
                    \<and> total_seconds (fst (snd f)) (mk_datetime 739000 9 0 0 0) < 2"
    by (simp add: at_09_00_def total_seconds_def to_microseconds_def mk_datetime_def)
  have act: "2 \<le> total_seconds ?a (mk_datetime 739000 9 0 0 0)"
    by (simp add: total_seconds_def to_microseconds_def mk_datetime_def)
  have quiet: "\<forall>f \<in> set [at_09_00 3 0 True]. fst f"
    by (simp add: at_09_00_def)
  have d: "py_int (total_seconds (mk_datetime 739000 9 0 3 500000) ?a) = 1"
    by (simp add: total_seconds_def to_microseconds_def mk_datetime_def py_int_def)
  have sta: "strftime_seconds ?a = mk_datetime 739000 9 0 2 0"
    by (simp add: strftime_seconds_def mk_datetime_def)
  note inst = C4_freetime_counts_from_activation
      [OF freetime_0_fields(1,2,3,4) c day waiting act quiet,
       of "mk_datetime 739000 9 0 0 0" ?a "mk_datetime 739000 9 0 3 500000"]
  have fr: "[at_09_00 0 0 True, at_09_00 1 500000 True, at_09_00 2 500000 True,
            at_09_00 3 0 True, at_09_00 3 500000 False]
        = (True, mk_datetime 739000 9 0 0 0, mk_datetime 739000 9 0 0 0)
            # [at_09_00 1 500000 True] @ (True, ?a, ?a) # [at_09_00 3 0 True]
            @ [(False, mk_datetime 739000 9 0 3 500000, mk_datetime 739000 9 0 3 500000)]"
    by (simp add: at_09_00_def)
  from inst[THEN conjunct1] obtain ld where rows: "iot_lacquerings
            (snd (run_freetime freetime_0 empty_database
                    ((True, mk_datetime 739000 9 0 0 0, mk_datetime 739000 9 0 0 0)
                       # [at_09_00 1 500000 True] @ (True, ?a, ?a) # [at_09_00 3 0 True]
                       @ [(False, mk_datetime 739000 9 0 3 500000,
                           mk_datetime 739000 9 0 3 500000)])))
          = iot_lacquerings empty_database @
              [\<lparr>area = ft_name_db freetime_0,
                time_format = format_duration (total_seconds (mk_datetime 739000 9 0 3 500000) ?a),
                time_int = py_int (total_seconds (mk_datetime 739000 9 0 3 500000) ?a),
                time_in = strftime_seconds ?a,
                shift = get_current_shift ?a, remark = ''freetime'',
                no_area = 0, log_date = ld,
                created_at = mk_datetime 739000 9 0 3 0\<rparr>]"
    by blast
  have p: "map time_int (iot_lacquerings
        (snd (run_freetime freetime_0 empty_database
           [at_09_00 0 0 True, at_09_00 1 500000 True, at_09_00 2 500000 True,
            at_09_00 3 0 True, at_09_00 3 500000 False]))) = [1]
   \<and> map remark (iot_lacquerings
        (snd (run_freetime freetime_0 empty_database
           [at_09_00 0 0 True, at_09_00 1 500000 True, at_09_00 2 500000 True,
            at_09_00 3 0 True, at_09_00 3 500000 False]))) = [''freetime'']
   \<and> map time_in (iot_lacquerings
        (snd (run_freetime freetime_0 empty_database
           [at_09_00 0 0 True, at_09_00 1 500000 True, at_09_00 2 500000 True,
            at_09_00 3 0 True, at_09_00 3 500000 False]))) = [mk_datetime 739000 9 0 2 0]"
    unfolding fr rows by (simp add: d sta empty_database_def)
  from freetime_0_fields(1,2,3,4) c day waiting act p show ?thesis
    by (simp add: at_09_00_def)
qed

section \<open>Glove sessions and freetime\<close>



















end
